theory Spec2Isabelle
  imports Complex_Main "HOL-Library.Char_ord" "HOL-Library.List_Lexorder"
begin

section \<open>Values of the event dictionaries\<close>

text \<open>
  Both programs keep an earthquake as a Python dictionary. Its values are the scalars a
  catalog response or a form field yields: \<open>None\<close>, a number, or a string. A number is a
  Python float or int; it is modelled by its exact value (\<open>Fin\<close>), with the three
  non-finite floats beside it. Rounding of the arithmetic and the sign of zero are
  not modelled: \<open>Fin\<close> arithmetic is exact, and a zero divisor counts as \<open>+0.0\<close>.
\<close>

datatype pyfloat = Fin real | NaN | PosInf | NegInf

datatype pyval = PyNone | PyFloat pyfloat | PyStr string

datatype error =
    KeyError | TypeError | ZeroDivisionError | IndexError | ValueError | ArtifactError

type_synonym dict = "string \<Rightarrow> pyval option"

definition rbind :: "error + 'a \<Rightarrow> ('a \<Rightarrow> error + 'b) \<Rightarrow> error + 'b" where
  "rbind r f = (case r of Inl e \<Rightarrow> Inl e | Inr x \<Rightarrow> f x)"

subsection \<open>Float comparison and arithmetic\<close>

fun fl_lt :: "pyfloat \<Rightarrow> pyfloat \<Rightarrow> bool" where
  "fl_lt (Fin a) (Fin b) = (a < b)"
| "fl_lt NaN _ = False"
| "fl_lt _ NaN = False"
| "fl_lt PosInf _ = False"
| "fl_lt _ PosInf = True"
| "fl_lt _ NegInf = False"
| "fl_lt NegInf _ = True"

fun fl_le :: "pyfloat \<Rightarrow> pyfloat \<Rightarrow> bool" where
  "fl_le (Fin a) (Fin b) = (a \<le> b)"
| "fl_le NaN _ = False"
| "fl_le _ NaN = False"
| "fl_le NegInf _ = True"
| "fl_le _ PosInf = True"
| "fl_le PosInf _ = False"
| "fl_le _ NegInf = False"

fun fl_add :: "pyfloat \<Rightarrow> pyfloat \<Rightarrow> pyfloat" where
  "fl_add (Fin a) (Fin b) = Fin (a + b)"
| "fl_add NaN _ = NaN"
| "fl_add _ NaN = NaN"
| "fl_add PosInf NegInf = NaN"
| "fl_add NegInf PosInf = NaN"
| "fl_add PosInf _ = PosInf"
| "fl_add NegInf _ = NegInf"
| "fl_add _ PosInf = PosInf"
| "fl_add _ NegInf = NegInf"

definition signed_inf :: "bool \<Rightarrow> pyfloat" where
  "signed_inf positive = (if positive then PosInf else NegInf)"

fun fl_mul :: "pyfloat \<Rightarrow> pyfloat \<Rightarrow> pyfloat" where
  "fl_mul (Fin a) (Fin b) = Fin (a * b)"
| "fl_mul NaN _ = NaN"
| "fl_mul _ NaN = NaN"
| "fl_mul PosInf (Fin b) = (if b = 0 then NaN else signed_inf (0 < b))"
| "fl_mul NegInf (Fin b) = (if b = 0 then NaN else signed_inf (b < 0))"
| "fl_mul (Fin a) PosInf = (if a = 0 then NaN else signed_inf (0 < a))"
| "fl_mul (Fin a) NegInf = (if a = 0 then NaN else signed_inf (a < 0))"
| "fl_mul PosInf PosInf = PosInf"
| "fl_mul NegInf NegInf = PosInf"
| "fl_mul PosInf NegInf = NegInf"
| "fl_mul NegInf PosInf = NegInf"

text \<open>
  IEEE division, as numpy and pandas perform it: a zero divisor gives an infinity or
  not-a-number and raises nothing.
\<close>

fun fl_div :: "pyfloat \<Rightarrow> pyfloat \<Rightarrow> pyfloat" where
  "fl_div (Fin a) (Fin b) =
     (if b = 0 then (if a = 0 then NaN else signed_inf (0 < a)) else Fin (a / b))"
| "fl_div NaN _ = NaN"
| "fl_div _ NaN = NaN"
| "fl_div (Fin a) PosInf = Fin 0"
| "fl_div (Fin a) NegInf = Fin 0"
| "fl_div PosInf (Fin b) = signed_inf (0 \<le> b)"
| "fl_div NegInf (Fin b) = signed_inf (b < 0)"
| "fl_div PosInf PosInf = NaN"
| "fl_div PosInf NegInf = NaN"
| "fl_div NegInf PosInf = NaN"
| "fl_div NegInf NegInf = NaN"

subsection \<open>Python operators on dictionary values\<close>

text \<open>
  Every operator of the two programs has a number on its right: a literal, or the
  result of an earlier arithmetic step. On the left stands a dictionary value; a
  \<open>None\<close> or a string there raises \<open>TypeError\<close>.
\<close>

fun num_of :: "pyval \<Rightarrow> error + pyfloat" where
  "num_of (PyFloat x) = Inr x"
| "num_of PyNone = Inl TypeError"
| "num_of (PyStr s) = Inl TypeError"

definition py_lt :: "pyval \<Rightarrow> pyfloat \<Rightarrow> error + bool" where
  "py_lt v c = rbind (num_of v) (\<lambda>x. Inr (fl_lt x c))"

definition py_gt :: "pyval \<Rightarrow> pyfloat \<Rightarrow> error + bool" where
  "py_gt v c = rbind (num_of v) (\<lambda>x. Inr (fl_lt c x))"

definition py_ge :: "pyval \<Rightarrow> pyfloat \<Rightarrow> error + bool" where
  "py_ge v c = rbind (num_of v) (\<lambda>x. Inr (fl_le c x))"

definition py_add :: "pyval \<Rightarrow> pyfloat \<Rightarrow> error + pyfloat" where
  "py_add v c = rbind (num_of v) (\<lambda>x. Inr (fl_add x c))"

definition py_mul :: "pyval \<Rightarrow> pyfloat \<Rightarrow> error + pyfloat" where
  "py_mul v c = rbind (num_of v) (\<lambda>x. Inr (fl_mul x c))"

text \<open>Python's \<open>/\<close> on scalars raises on a zero divisor; pandas' \<open>/\<close> on columns does not.\<close>

definition py_truediv :: "pyval \<Rightarrow> pyfloat \<Rightarrow> error + pyfloat" where
  "py_truediv v c =
     rbind (num_of v) (\<lambda>x. if c = Fin 0 then Inl ZeroDivisionError else Inr (fl_div x c))"

definition pd_truediv :: "pyval \<Rightarrow> pyfloat \<Rightarrow> error + pyfloat" where
  "pd_truediv v c = rbind (num_of v) (\<lambda>x. Inr (fl_div x c))"

text \<open>
  \<open>&\<close> and \<open>|\<close> evaluate both operands, left first; \<open>and\<close> and \<open>or\<close> stop at the
  first operand that decides the result.
\<close>

definition bit_and :: "error + bool \<Rightarrow> error + bool \<Rightarrow> error + bool" where
  "bit_and x y = rbind x (\<lambda>a. rbind y (\<lambda>b. Inr (a \<and> b)))"

definition bit_or :: "error + bool \<Rightarrow> error + bool \<Rightarrow> error + bool" where
  "bit_or x y = rbind x (\<lambda>a. rbind y (\<lambda>b. Inr (a \<or> b)))"

definition bool_and :: "error + bool \<Rightarrow> error + bool \<Rightarrow> error + bool" where
  "bool_and x y = rbind x (\<lambda>a. if a then y else Inr False)"

definition bool_or :: "error + bool \<Rightarrow> error + bool \<Rightarrow> error + bool" where
  "bool_or x y = rbind x (\<lambda>a. if a then Inr True else y)"

definition int_of_bool :: "bool \<Rightarrow> int" where
  "int_of_bool b = (if b then 1 else 0)"

definition getitem :: "dict \<Rightarrow> string \<Rightarrow> error + pyval" where
  "getitem d k = (case d k of None \<Rightarrow> Inl KeyError | Some v \<Rightarrow> Inr v)"

definition get_default :: "dict \<Rightarrow> string \<Rightarrow> pyval \<Rightarrow> pyval" where
  "get_default d k dflt = (case d k of None \<Rightarrow> dflt | Some v \<Rightarrow> v)"

text \<open>
  Three tests on a dictionary entry: a number is there; a number is there or the key is
  absent; whatever is there is not a string.
\<close>

definition is_number :: "pyval option \<Rightarrow> bool" where
  "is_number v = (case v of Some (PyFloat x) \<Rightarrow> True | _ \<Rightarrow> False)"

definition number_or_absent :: "pyval option \<Rightarrow> bool" where
  "number_or_absent v = (case v of None \<Rightarrow> True | Some (PyFloat x) \<Rightarrow> True | _ \<Rightarrow> False)"

definition not_text :: "pyval option \<Rightarrow> bool" where
  "not_text v = (case v of Some (PyStr s) \<Rightarrow> False | _ \<Rightarrow> True)"

section \<open>Ocean proximity\<close>

text \<open>\<open>calculate_ocean_proximity\<close> of \<open>app.py\<close>, written with \<open>&\<close> and \<open>|\<close>.\<close>

definition calculate_ocean_proximity_app :: "pyval \<Rightarrow> pyval \<Rightarrow> error + int" where
  "calculate_ocean_proximity_app lat lon =
     rbind (bit_and
              (bit_and (py_gt lat (Fin (- 60))) (py_lt lat (Fin 60)))
              (bit_or (bit_and (py_gt lon (Fin 120)) (py_lt lon (Fin 180)))
                      (bit_and (py_gt lon (Fin (- 180))) (py_lt lon (Fin (- 60))))))
       (\<lambda>pacific_ring.
     rbind (bit_and
              (bit_and (py_gt lat (Fin (- 45))) (py_lt lat (Fin 25)))
              (bit_and (py_gt lon (Fin 40)) (py_lt lon (Fin 120))))
       (\<lambda>indian_ocean.
     rbind (bit_and
              (bit_and (py_gt lat (Fin 5)) (py_lt lat (Fin 25)))
              (bit_and (py_gt lon (Fin (- 90))) (py_lt lon (Fin (- 55)))))
       (\<lambda>caribbean.
     Inr (int_of_bool (pacific_ring \<or> indian_ocean \<or> caribbean)))))"

text \<open>\<open>calculate_ocean_proximity\<close> of the monitoring page, written with \<open>and\<close> and \<open>or\<close>.\<close>

definition calculate_ocean_proximity_mon :: "pyval \<Rightarrow> pyval \<Rightarrow> error + int" where
  "calculate_ocean_proximity_mon lat lon =
     rbind (bool_and
              (bool_and (py_gt lat (Fin (- 60))) (py_lt lat (Fin 60)))
              (bool_or (bool_and (py_gt lon (Fin 120)) (py_lt lon (Fin 180)))
                       (bool_and (py_gt lon (Fin (- 180))) (py_lt lon (Fin (- 60))))))
       (\<lambda>pacific_ring.
     rbind (bool_and
              (bool_and (py_gt lat (Fin (- 45))) (py_lt lat (Fin 25)))
              (bool_and (py_gt lon (Fin 40)) (py_lt lon (Fin 120))))
       (\<lambda>indian_ocean.
     rbind (bool_and
              (bool_and (py_gt lat (Fin 5)) (py_lt lat (Fin 25)))
              (bool_and (py_gt lon (Fin (- 90))) (py_lt lon (Fin (- 55)))))
       (\<lambda>caribbean.
     Inr (int_of_bool (pacific_ring \<or> indian_ocean \<or> caribbean)))))"

text \<open>The three basins as the specification words them: open boxes of coordinates.\<close>

definition spec_pacific_ring :: "real \<Rightarrow> real \<Rightarrow> bool" where
  "spec_pacific_ring lat lon =
     ((- 60 < lat \<and> lat < 60) \<and> ((120 < lon \<and> lon < 180) \<or> (- 180 < lon \<and> lon < - 60)))"

definition spec_indian_ocean :: "real \<Rightarrow> real \<Rightarrow> bool" where
  "spec_indian_ocean lat lon = ((- 45 < lat \<and> lat < 25) \<and> (40 < lon \<and> lon < 120))"

definition spec_caribbean :: "real \<Rightarrow> real \<Rightarrow> bool" where
  "spec_caribbean lat lon = ((5 < lat \<and> lat < 25) \<and> (- 90 < lon \<and> lon < - 55))"

section \<open>The model artefacts\<close>

text \<open>
  The scaler, the classifier and the list of feature names are loaded from files that
  are not part of the repository. They are parameters here: each call may raise, and
  the classifier's probability of the tsunami class is a real number.
  \<open>load_model\<close> yields \<open>None\<close> for all three when loading fails.
\<close>

record artifacts =
  feature_names :: "string list"
  scaler_transform :: "pyval list \<Rightarrow> error + pyfloat list"
  predict_proba :: "pyfloat list \<Rightarrow> error + real"
  predict :: "pyfloat list \<Rightarrow> error + int"

text \<open>\<open>pd.DataFrame([row])[feature_names]\<close>: a name that is not a column raises.\<close>

fun select_columns :: "dict \<Rightarrow> string list \<Rightarrow> error + pyval list" where
  "select_columns row [] = Inr []"
| "select_columns row (n # ns) =
     rbind (getitem row n) (\<lambda>v. rbind (select_columns row ns) (\<lambda>vs. Inr (v # vs)))"

definition int_val :: "int \<Rightarrow> pyval" where
  "int_val i = PyFloat (Fin (of_int i))"

record risk_base =
  probability :: real
  risk_level :: string
  risk_color :: string

section \<open>The single-shot application (\<open>app.py\<close>)\<close>

definition mag_depth_ratio_app :: "pyval \<Rightarrow> pyval \<Rightarrow> error + pyfloat" where
  "mag_depth_ratio_app magnitude depth =
     rbind (py_add depth (Fin 1)) (\<lambda>d1. py_truediv magnitude d1)"

definition intensity_score_app :: "pyval \<Rightarrow> pyval \<Rightarrow> pyval \<Rightarrow> error + pyfloat" where
  "intensity_score_app magnitude mmi sig =
     rbind (py_mul magnitude (Fin 0.5)) (\<lambda>a.
     rbind (py_mul mmi (Fin 0.3)) (\<lambda>b.
     rbind (py_truediv sig (Fin 100)) (\<lambda>c.
     Inr (fl_add (fl_add a b) (fl_mul c (Fin 0.2))))))"

definition shallow_strong_app :: "pyval \<Rightarrow> pyval \<Rightarrow> error + int" where
  "shallow_strong_app depth magnitude =
     rbind (bool_and (py_lt depth (Fin 70)) (py_gt magnitude (Fin 7.5)))
       (\<lambda>b. Inr (int_of_bool b))"

definition engineer_features :: "dict \<Rightarrow> error + dict" where
  "engineer_features data =
     rbind (getitem data ''latitude'') (\<lambda>lat.
     rbind (getitem data ''longitude'') (\<lambda>lon.
     rbind (calculate_ocean_proximity_app lat lon) (\<lambda>ocean_proximity.
     rbind (getitem data ''magnitude'') (\<lambda>magnitude.
     rbind (getitem data ''depth'') (\<lambda>depth.
     rbind (mag_depth_ratio_app magnitude depth) (\<lambda>mag_depth_ratio.
     rbind (intensity_score_app magnitude
              (get_default data ''mmi'' (int_val 0)) (get_default data ''sig'' (int_val 0)))
       (\<lambda>intensity_score.
     rbind (shallow_strong_app depth magnitude) (\<lambda>shallow_strong.
     Inr (data(''ocean_proximity'' \<mapsto> int_val ocean_proximity,
               ''mag_depth_ratio'' \<mapsto> PyFloat mag_depth_ratio,
               ''intensity_score'' \<mapsto> PyFloat intensity_score,
               ''shallow_strong'' \<mapsto> int_val shallow_strong))))))))))"

text \<open>The display strings, as the UTF-8 bytes of the source text.\<close>

definition red_circle :: string where
  "red_circle = [CHR 0xF0, CHR 0x9F, CHR 0x94, CHR 0xB4]"

definition orange_circle :: string where
  "orange_circle = [CHR 0xF0, CHR 0x9F, CHR 0x9F, CHR 0xA0]"

definition yellow_circle :: string where
  "yellow_circle = [CHR 0xF0, CHR 0x9F, CHR 0x9F, CHR 0xA1]"

definition green_circle :: string where
  "green_circle = [CHR 0xF0, CHR 0x9F, CHR 0x9F, CHR 0xA2]"

definition warning_sign :: string where
  "warning_sign = [CHR 0xE2, CHR 0x9A, CHR 0xA0, CHR 0xEF, CHR 0xB8, CHR 0x8F]"

definition factor_magnitude :: string where
  "factor_magnitude =
     warning_sign @ '' Magnitud muy alta ('' @ [CHR 0xE2, CHR 0x89, CHR 0xA5] @ ''7.5)''"

definition factor_depth :: string where
  "factor_depth = warning_sign @ '' Terremoto superficial (<70km)''"

definition factor_ocean :: string where
  "factor_ocean =
     warning_sign @ '' Cerca de zona oce'' @ [CHR 0xC3, CHR 0xA1] @ ''nica de riesgo''"

definition factor_mmi :: string where
  "factor_mmi = warning_sign @ '' Intensidad percibida alta''"

text \<open>The three-tier classification of \<open>predict_tsunami\<close>: level and colour.\<close>

definition risk_tier3 :: "real \<Rightarrow> string \<times> string" where
  "risk_tier3 p =
     (if p \<ge> 0.7 then (red_circle @ '' Alto'', ''#dc3545'')
      else if p \<ge> 0.3 then (yellow_circle @ '' Moderado'', ''#ffc107'')
      else (green_circle @ '' Bajo'', ''#28a745''))"

text \<open>The risk factors of \<open>predict_tsunami\<close>: four tests in order, each appending its text.\<close>

definition risk_factors_of :: "dict \<Rightarrow> dict \<Rightarrow> error + string list" where
  "risk_factors_of earthquake_data processed =
     rbind (getitem earthquake_data ''magnitude'') (\<lambda>magnitude.
     rbind (py_ge magnitude (Fin 7.5)) (\<lambda>t1.
     rbind (getitem earthquake_data ''depth'') (\<lambda>depth.
     rbind (py_lt depth (Fin 70)) (\<lambda>t2.
     rbind (getitem processed ''ocean_proximity'') (\<lambda>ocean_proximity.
     rbind (py_ge (get_default earthquake_data ''mmi'' (int_val 0)) (Fin 6)) (\<lambda>t4.
     Inr ((if t1 then [factor_magnitude] else [])
        @ (if t2 then [factor_depth] else [])
        @ (if ocean_proximity = int_val 1 then [factor_ocean] else [])
        @ (if t4 then [factor_mmi] else []))))))))"

record tsunami_result = risk_base +
  prediction :: int
  risk_factors :: "string list"

definition predict_tsunami :: "artifacts option \<Rightarrow> dict \<Rightarrow> error + tsunami_result option" where
  "predict_tsunami model earthquake_data =
     (case model of
        None \<Rightarrow> Inr None
      | Some m \<Rightarrow>
          rbind (engineer_features earthquake_data) (\<lambda>processed.
          rbind (select_columns processed (feature_names m)) (\<lambda>X.
          rbind (scaler_transform m X) (\<lambda>X_scaled.
          rbind (predict_proba m X_scaled) (\<lambda>p.
          rbind (predict m X_scaled) (\<lambda>cls.
          rbind (risk_factors_of earthquake_data processed) (\<lambda>factors.
          Inr (Some \<lparr> probability = p,
                      risk_level = fst (risk_tier3 p),
                      risk_color = snd (risk_tier3 p),
                      prediction = cls,
                      risk_factors = factors \<rparr>))))))))"

section \<open>The monitoring page\<close>

text \<open>
  An earthquake of the monitoring page is the dictionary \<open>fetch_recent_earthquakes\<close>
  builds. Its \<open>time\<close> entry is a \<open>datetime\<close>, of which only year and month are
  read; it is kept apart from the scalar entries. \<open>time = None\<close> is a dictionary without
  that key.
\<close>

record datetime =
  year :: int
  month :: int

record earthquake =
  time :: "datetime option"
  entries :: dict

subsection \<open>Fetching from the catalog\<close>

text \<open>
  The catalog and the clock are outside the program. A request either fails (the
  transport, the timeout of ten seconds, the status check or the decoding of the body
  raises) or yields a document, whose \<open>features\<close> entry may be absent. A feature may lack
  its \<open>id\<close>, its \<open>properties\<close> or the coordinate list under \<open>geometry\<close>.
  \<open>datetime.fromtimestamp\<close> depends on the local time zone and may raise.
\<close>

datatype failure = ConnectionFailed | TimedOut | BadStatus | MalformedBody

record feature =
  feature_id :: "pyval option"
  properties :: "dict option"
  coordinates :: "pyval list option"

datatype upstream = Failed failure | Document "feature list option"

record environment =
  usgs_query :: "real \<Rightarrow> real \<Rightarrow> upstream"
  fromtimestamp :: "pyfloat \<Rightarrow> error + datetime"

definition lookup :: "'a option \<Rightarrow> error + 'a" where
  "lookup x = (case x of None \<Rightarrow> Inl KeyError | Some v \<Rightarrow> Inr v)"

definition list_get :: "'a list \<Rightarrow> nat \<Rightarrow> error + 'a" where
  "list_get xs i = (if i < length xs then Inr (xs ! i) else Inl IndexError)"

definition earthquake_of_feature :: "environment \<Rightarrow> feature \<Rightarrow> error + earthquake" where
  "earthquake_of_feature env f =
     rbind (lookup (properties f)) (\<lambda>props.
     rbind (lookup (coordinates f)) (\<lambda>coords.
     rbind (lookup (feature_id f)) (\<lambda>ident.
     rbind (getitem props ''time'') (\<lambda>t.
     rbind (py_truediv t (Fin 1000)) (\<lambda>seconds.
     rbind (fromtimestamp env seconds) (\<lambda>dt.
     rbind (getitem props ''mag'') (\<lambda>mag.
     rbind (getitem props ''place'') (\<lambda>place.
     rbind (list_get coords 0) (\<lambda>lon.
     rbind (list_get coords 1) (\<lambda>lat.
     rbind (list_get coords 2) (\<lambda>depth.
     Inr \<lparr> time = Some dt,
           entries = map_of
             [(''id'', ident),
              (''magnitude'', mag),
              (''place'', place),
              (''longitude'', lon),
              (''latitude'', lat),
              (''depth'', depth),
              (''sig'', get_default props ''sig'' (int_val 1000)),
              (''mmi'', get_default props ''mmi'' (int_val 5)),
              (''cdi'', get_default props ''cdi'' (int_val 5)),
              (''nst'', get_default props ''nst'' (int_val 50)),
              (''dmin'', get_default props ''dmin'' (PyFloat (Fin 1.0))),
              (''gap'', get_default props ''gap'' (PyFloat (Fin 100.0))),
              (''url'', get_default props ''url'' (PyStr [])),
              (''tsunami'', get_default props ''tsunami'' (int_val 0))] \<rparr>)))))))))))"

fun fetch_loop :: "environment \<Rightarrow> feature list \<Rightarrow> earthquake list \<Rightarrow> error + earthquake list" where
  "fetch_loop env [] earthquakes = Inr earthquakes"
| "fetch_loop env (f # fs) earthquakes =
     rbind (earthquake_of_feature env f) (\<lambda>e. fetch_loop env fs (earthquakes @ [e]))"

text \<open>Whatever is raised inside the \<open>try\<close> block is caught, and the empty list returned.\<close>

definition fetch_recent_earthquakes :: "environment \<Rightarrow> real \<Rightarrow> real \<Rightarrow> earthquake list" where
  "fetch_recent_earthquakes env minutes min_magnitude =
     (case usgs_query env minutes min_magnitude of
        Failed e \<Rightarrow> []
      | Document features \<Rightarrow>
          (case fetch_loop env (case features of None \<Rightarrow> [] | Some fs \<Rightarrow> fs) [] of
             Inl e \<Rightarrow> []
           | Inr earthquakes \<Rightarrow> earthquakes))"

subsection \<open>Predicting the risk of one earthquake\<close>

definition defaults :: "(string \<times> pyval) list" where
  "defaults =
     [(''magnitude'', PyFloat (Fin 5.0)),
      (''depth'', PyFloat (Fin 10.0)),
      (''latitude'', PyFloat (Fin 0.0)),
      (''longitude'', PyFloat (Fin 0.0)),
      (''sig'', int_val 1000),
      (''mmi'', PyFloat (Fin 5.0)),
      (''cdi'', PyFloat (Fin 5.0)),
      (''nst'', int_val 50),
      (''dmin'', PyFloat (Fin 1.0)),
      (''gap'', PyFloat (Fin 100.0))]"

text \<open>\<open>val is None or (isinstance(val, float) and pd.isna(val))\<close>\<close>

definition is_missing :: "pyval \<Rightarrow> bool" where
  "is_missing val = (val = PyNone \<or> val = PyFloat NaN)"

definition fill_value :: "dict \<Rightarrow> string \<Rightarrow> pyval \<Rightarrow> pyval" where
  "fill_value earthquake key dflt =
     (let val = get_default earthquake key dflt in if is_missing val then dflt else val)"

definition input_data_of :: "dict \<Rightarrow> dict" where
  "input_data_of earthquake =
     map_of (map (\<lambda>(key, dflt). (key, fill_value earthquake key dflt)) defaults)"

definition mag_depth_ratio_mon :: "pyval \<Rightarrow> pyval \<Rightarrow> error + pyfloat" where
  "mag_depth_ratio_mon magnitude depth =
     rbind (py_add depth (Fin 1)) (\<lambda>d1. pd_truediv magnitude d1)"

definition intensity_score_mon :: "pyval \<Rightarrow> pyval \<Rightarrow> pyval \<Rightarrow> error + pyfloat" where
  "intensity_score_mon magnitude mmi sig =
     rbind (py_mul magnitude (Fin 0.5)) (\<lambda>a.
     rbind (py_mul mmi (Fin 0.3)) (\<lambda>b.
     rbind (pd_truediv sig (Fin 100)) (\<lambda>c.
     Inr (fl_add (fl_add a b) (fl_mul c (Fin 0.2))))))"

definition shallow_strong_mon :: "pyval \<Rightarrow> pyval \<Rightarrow> error + int" where
  "shallow_strong_mon depth magnitude =
     rbind (bit_and (py_lt depth (Fin 70)) (py_gt magnitude (Fin 7.5)))
       (\<lambda>b. Inr (int_of_bool b))"

text \<open>
  The first half of \<open>predict_tsunami_risk\<close>: the one-row data frame with the defaults
  filled in, year and month added, and the four derived columns.
\<close>

definition derive_features :: "earthquake \<Rightarrow> error + dict" where
  "derive_features eq =
     (let input_data = input_data_of (entries eq) in
      rbind (lookup (time eq)) (\<lambda>dt.
      let df = input_data(''Year'' \<mapsto> int_val (year dt), ''Month'' \<mapsto> int_val (month dt)) in
      rbind (getitem df ''latitude'') (\<lambda>lat.
      rbind (getitem df ''longitude'') (\<lambda>lon.
      rbind (calculate_ocean_proximity_mon lat lon) (\<lambda>ocean_proximity.
      rbind (getitem df ''magnitude'') (\<lambda>magnitude.
      rbind (getitem df ''depth'') (\<lambda>depth.
      rbind (mag_depth_ratio_mon magnitude depth) (\<lambda>mag_depth_ratio.
      rbind (getitem df ''mmi'') (\<lambda>mmi.
      rbind (getitem df ''sig'') (\<lambda>sig.
      rbind (intensity_score_mon magnitude mmi sig) (\<lambda>intensity_score.
      rbind (shallow_strong_mon depth magnitude) (\<lambda>shallow_strong.
      Inr (df(''ocean_proximity'' \<mapsto> int_val ocean_proximity,
              ''mag_depth_ratio'' \<mapsto> PyFloat mag_depth_ratio,
              ''intensity_score'' \<mapsto> PyFloat intensity_score,
              ''shallow_strong'' \<mapsto> int_val shallow_strong))))))))))))))"

text \<open>The five-tier classification: level, colour and emblem.\<close>

definition risk_tier5 :: "real \<Rightarrow> string \<times> string \<times> string" where
  "risk_tier5 p =
     (if p < 0.2 then (''Muy Bajo'', ''#10b981'', green_circle)
      else if p < 0.4 then (''Bajo'', ''#84cc16'', green_circle)
      else if p < 0.6 then (''Moderado'', ''#f59e0b'', yellow_circle)
      else if p < 0.8 then (''Alto'', ''#f97316'', orange_circle)
      else (''Muy Alto'', ''#ef4444'', red_circle))"

record risk = risk_base +
  risk_emoji :: string

definition score_features :: "artifacts \<Rightarrow> earthquake \<Rightarrow> error + risk" where
  "score_features m eq =
     rbind (derive_features eq) (\<lambda>df.
     rbind (select_columns df (feature_names m)) (\<lambda>X.
     rbind (scaler_transform m X) (\<lambda>X_scaled.
     rbind (predict_proba m X_scaled) (\<lambda>p.
     Inr \<lparr> probability = p,
           risk_level = fst (risk_tier5 p),
           risk_color = fst (snd (risk_tier5 p)),
           risk_emoji = snd (snd (risk_tier5 p)) \<rparr>))))"

text \<open>
  \<open>predict_tsunami_risk\<close> returns \<open>None\<close> without a model, and \<open>None\<close> again when
  anything inside its \<open>try\<close> block raises.
\<close>

definition predict_tsunami_risk :: "artifacts option \<Rightarrow> earthquake \<Rightarrow> risk option" where
  "predict_tsunami_risk model eq =
     (case model of
        None \<Rightarrow> None
      | Some m \<Rightarrow> (case score_features m eq of Inl e \<Rightarrow> None | Inr r \<Rightarrow> Some r))"

subsection \<open>The summary metrics and the list of alerts\<close>

text \<open>
  \<open>max\<close> over the magnitudes keeps the first greatest entry: a later entry replaces the
  current one only when \<open>>\<close> holds. Two numbers or two strings compare; anything else
  raises \<open>TypeError\<close>.
\<close>

fun val_gt :: "pyval \<Rightarrow> pyval \<Rightarrow> error + bool" where
  "val_gt (PyFloat a) (PyFloat b) = Inr (fl_lt b a)"
| "val_gt (PyStr a) (PyStr b) = Inr (b < a)"
| "val_gt _ _ = Inl TypeError"

fun max_loop :: "pyval \<Rightarrow> earthquake list \<Rightarrow> error + pyval" where
  "max_loop current [] = Inr current"
| "max_loop current (eq # eqs) =
     rbind (getitem (entries eq) ''magnitude'') (\<lambda>x.
     rbind (val_gt x current) (\<lambda>greater.
     max_loop (if greater then x else current) eqs))"

definition max_magnitude :: "earthquake list \<Rightarrow> error + pyval" where
  "max_magnitude earthquakes =
     (case earthquakes of
        [] \<Rightarrow> Inl ValueError
      | eq # eqs \<Rightarrow> rbind (getitem (entries eq) ''magnitude'') (\<lambda>x. max_loop x eqs))"

text \<open>
  A displayed metric is a text, or a number shown with one decimal (\<open>:.1f\<close>), which
  only a number accepts.
\<close>

datatype metric_value = Text string | OneDecimal pyfloat

fun format_1f :: "pyval \<Rightarrow> error + metric_value" where
  "format_1f (PyFloat x) = Inr (OneDecimal x)"
| "format_1f PyNone = Inl TypeError"
| "format_1f (PyStr s) = Inl ValueError"

definition alerts_count :: "artifacts option \<Rightarrow> real \<Rightarrow> earthquake list \<Rightarrow> nat" where
  "alerts_count model alert_threshold earthquakes =
     (if earthquakes \<noteq> [] \<and> model \<noteq> None
      then fold (\<lambda>eq n. case predict_tsunami_risk model eq of
                           None \<Rightarrow> n
                         | Some risk \<Rightarrow> if probability risk \<ge> alert_threshold then n + 1 else n)
             earthquakes 0
      else 0)"

record summary =
  total_terremotos :: nat
  magnitud_maxima :: metric_value
  alertas_de_tsunami :: nat

definition summary_metrics ::
  "artifacts option \<Rightarrow> real \<Rightarrow> earthquake list \<Rightarrow> error + summary" where
  "summary_metrics model alert_threshold earthquakes =
     rbind (if earthquakes \<noteq> []
            then rbind (max_magnitude earthquakes) format_1f
            else Inr (Text ''N/A''))
       (\<lambda>shown.
     Inr \<lparr> total_terremotos = length earthquakes,
           magnitud_maxima = shown,
           alertas_de_tsunami = alerts_count model alert_threshold earthquakes \<rparr>)"

text \<open>The second scoring pass: every earthquake with a risk, paired with it, in order.\<close>

definition assess :: "artifacts option \<Rightarrow> earthquake list \<Rightarrow> (earthquake \<times> risk) list" where
  "assess model earthquakes =
     fold (\<lambda>eq acc. case predict_tsunami_risk model eq of
                       None \<Rightarrow> acc
                     | Some r \<Rightarrow> acc @ [(eq, r)])
       earthquakes []"

text \<open>
  \<open>list.sort(key=..., reverse=True)\<close> is Python's own: it reverses the list, sorts it
  stably by ascending key, and reverses the result. A stable sort by a key has one
  possible result, which \<open>sort_key\<close> computes.
\<close>

definition py_sort_reverse :: "('a \<Rightarrow> real) \<Rightarrow> 'a list \<Rightarrow> 'a list" where
  "py_sort_reverse key xs = rev (sort_key key (rev xs))"

definition earthquakes_with_risk ::
  "artifacts option \<Rightarrow> earthquake list \<Rightarrow> (earthquake \<times> risk) list" where
  "earthquakes_with_risk model earthquakes =
     py_sort_reverse (\<lambda>x. probability (snd x)) (assess model earthquakes)"

definition high_risk ::
  "artifacts option \<Rightarrow> real \<Rightarrow> earthquake list \<Rightarrow> (earthquake \<times> risk) list" where
  "high_risk model alert_threshold earthquakes =
     filter (\<lambda>x. probability (snd x) \<ge> alert_threshold) (earthquakes_with_risk model earthquakes)"

text \<open>What the second pass keeps of one earthquake: the pair with its risk, if it has one.\<close>

definition keep_risk :: "artifacts option \<Rightarrow> earthquake \<Rightarrow> (earthquake \<times> risk) option" where
  "keep_risk model eq = map_option (Pair eq) (predict_tsunami_risk model eq)"

section \<open>Concrete inputs\<close>

text \<open>
  The form of \<open>app.py\<close> filled with its example "Japon 2011" and the other fields at
  their initial values.
\<close>

definition japan_2011 :: dict where
  "japan_2011 = map_of
     [(''magnitude'', PyFloat (Fin 9.1)),
      (''depth'', PyFloat (Fin 29.0)),
      (''latitude'', PyFloat (Fin 38.322)),
      (''longitude'', PyFloat (Fin 142.369)),
      (''cdi'', PyFloat (Fin 5.0)),
      (''mmi'', PyFloat (Fin 6.0)),
      (''sig'', int_val 800),
      (''nst'', int_val 50),
      (''dmin'', PyFloat (Fin 1.0)),
      (''gap'', PyFloat (Fin 100.0)),
      (''Year'', int_val 2011),
      (''Month'', int_val 3),
      (''place'', PyStr (''Jap'' @ [CHR 0xC3, CHR 0xB3] @ ''n 2011''))]"

text \<open>
  A stand-in for the artefacts, to run the definitions on concrete events: four
  features, a scaler that passes numbers through, and a classifier that looks at
  \<open>shallow_strong\<close> and \<open>ocean_proximity\<close> only.
\<close>

fun example_transform :: "pyval list \<Rightarrow> error + pyfloat list" where
  "example_transform [] = Inr []"
| "example_transform (v # vs) =
     rbind (num_of v) (\<lambda>x. rbind (example_transform vs) (\<lambda>xs. Inr (x # xs)))"

fun example_proba :: "pyfloat list \<Rightarrow> error + real" where
  "example_proba [magnitude, depth, ocean_proximity, shallow_strong] =
     Inr (if shallow_strong = Fin 1 then 0.9 else if ocean_proximity = Fin 1 then 0.5 else 0.1)"
| "example_proba _ = Inl ArtifactError"

definition example_model :: artifacts where
  "example_model =
     \<lparr> feature_names = [''magnitude'', ''depth'', ''ocean_proximity'', ''shallow_strong''],
       scaler_transform = example_transform,
       predict_proba = example_proba,
       predict = (\<lambda>X. rbind (example_proba X) (\<lambda>p. Inr (if p \<ge> 0.5 then 1 else 0))) \<rparr>"

text \<open>
  Three catalog features: a shallow strong event off Japan, an event whose magnitude the
  catalog reports as \<open>null\<close>, and a second event off Japan below the strength threshold.
\<close>

definition feature_tohoku :: feature where
  "feature_tohoku =
     \<lparr> feature_id = Some (PyStr ''official20110311054624120_30''),
       properties = Some (map_of
         [(''time'', int_val 1299822384120),
          (''mag'', PyFloat (Fin 9.1)),
          (''place'', PyStr ''2011 Great Tohoku Earthquake, Japan''),
          (''sig'', int_val 2184),
          (''mmi'', PyFloat (Fin 8.7)),
          (''tsunami'', int_val 1)]),
       coordinates = Some [PyFloat (Fin 142.373), PyFloat (Fin 38.297), PyFloat (Fin 29)] \<rparr>"

definition feature_null_mag :: feature where
  "feature_null_mag =
     \<lparr> feature_id = Some (PyStr ''us7000abcd''),
       properties = Some (map_of
         [(''time'', int_val 1299822384120),
          (''mag'', PyNone),
          (''place'', PyStr ''South Atlantic Ocean'')]),
       coordinates = Some [PyFloat (Fin (- 20)), PyFloat (Fin (- 30)), PyFloat (Fin 10)] \<rparr>"

definition feature_honshu :: feature where
  "feature_honshu =
     \<lparr> feature_id = Some (PyStr ''us7000efgh''),
       properties = Some (map_of
         [(''time'', int_val 1299822384120),
          (''mag'', PyFloat (Fin 6.2)),
          (''place'', PyStr ''near the east coast of Honshu, Japan'')]),
       coordinates = Some [PyFloat (Fin 141.5), PyFloat (Fin 37.0), PyFloat (Fin 40)] \<rparr>"

definition feature_kyushu :: feature where
  "feature_kyushu =
     \<lparr> feature_id = Some (PyStr ''us7000ijkl''),
       properties = Some (map_of
         [(''time'', int_val 1299822384120),
          (''mag'', PyFloat (Fin 5.8)),
          (''place'', PyStr ''Kyushu, Japan'')]),
       coordinates = Some [PyFloat (Fin 131.0), PyFloat (Fin 32.0), PyFloat (Fin 35)] \<rparr>"

text \<open>
  A catalog that times out for a window of ten minutes and answers with these features
  otherwise, on a clock that reads March 2011.
\<close>

definition example_env :: environment where
  "example_env =
     \<lparr> usgs_query = (\<lambda>minutes min_magnitude.
         if minutes = 10 then Failed TimedOut
         else Document (Some [feature_honshu, feature_null_mag, feature_tohoku, feature_kyushu])),
       fromtimestamp = (\<lambda>seconds. Inr \<lparr> year = 2011, month = 3 \<rparr>) \<rparr>"

text \<open>The earthquakes \<open>fetch_recent_earthquakes\<close> builds from these features.\<close>

definition quake_honshu :: earthquake where
  "quake_honshu =
     \<lparr> time = Some \<lparr> year = 2011, month = 3 \<rparr>,
       entries = map_of
         [(''id'', PyStr ''us7000efgh''),
          (''magnitude'', PyFloat (Fin 6.2)),
          (''place'', PyStr ''near the east coast of Honshu, Japan''),
          (''longitude'', PyFloat (Fin 141.5)),
          (''latitude'', PyFloat (Fin 37.0)),
          (''depth'', PyFloat (Fin 40)),
          (''sig'', int_val 1000),
          (''mmi'', int_val 5),
          (''cdi'', int_val 5),
          (''nst'', int_val 50),
          (''dmin'', PyFloat (Fin 1.0)),
          (''gap'', PyFloat (Fin 100.0)),
          (''url'', PyStr []),
          (''tsunami'', int_val 0)] \<rparr>"

definition quake_null_mag :: earthquake where
  "quake_null_mag =
     \<lparr> time = Some \<lparr> year = 2011, month = 3 \<rparr>,
       entries = map_of
         [(''id'', PyStr ''us7000abcd''),
          (''magnitude'', PyNone),
          (''place'', PyStr ''South Atlantic Ocean''),
          (''longitude'', PyFloat (Fin (- 20))),
          (''latitude'', PyFloat (Fin (- 30))),
          (''depth'', PyFloat (Fin 10)),
          (''sig'', int_val 1000),
          (''mmi'', int_val 5),
          (''cdi'', int_val 5),
          (''nst'', int_val 50),
          (''dmin'', PyFloat (Fin 1.0)),
          (''gap'', PyFloat (Fin 100.0)),
          (''url'', PyStr []),
          (''tsunami'', int_val 0)] \<rparr>"

definition quake_tohoku :: earthquake where
  "quake_tohoku =
     \<lparr> time = Some \<lparr> year = 2011, month = 3 \<rparr>,
       entries = map_of
         [(''id'', PyStr ''official20110311054624120_30''),
          (''magnitude'', PyFloat (Fin 9.1)),
          (''place'', PyStr ''2011 Great Tohoku Earthquake, Japan''),
          (''longitude'', PyFloat (Fin 142.373)),
          (''latitude'', PyFloat (Fin 38.297)),
          (''depth'', PyFloat (Fin 29)),
          (''sig'', int_val 2184),
          (''mmi'', PyFloat (Fin 8.7)),
          (''cdi'', int_val 5),
          (''nst'', int_val 50),
          (''dmin'', PyFloat (Fin 1.0)),
          (''gap'', PyFloat (Fin 100.0)),
          (''url'', PyStr []),
          (''tsunami'', int_val 1)] \<rparr>"

definition quake_kyushu :: earthquake where
  "quake_kyushu =
     \<lparr> time = Some \<lparr> year = 2011, month = 3 \<rparr>,
       entries = map_of
         [(''id'', PyStr ''us7000ijkl''),
          (''magnitude'', PyFloat (Fin 5.8)),
          (''place'', PyStr ''Kyushu, Japan''),
          (''longitude'', PyFloat (Fin 131.0)),
          (''latitude'', PyFloat (Fin 32.0)),
          (''depth'', PyFloat (Fin 35)),
          (''sig'', int_val 1000),
          (''mmi'', int_val 5),
          (''cdi'', int_val 5),
          (''nst'', int_val 50),
          (''dmin'', PyFloat (Fin 1.0)),
          (''gap'', PyFloat (Fin 100.0)),
          (''url'', PyStr []),
          (''tsunami'', int_val 0)] \<rparr>"

text \<open>The Tohoku event as the catalog reports it when no intensity is known.\<close>

definition quake_tohoku_null_mmi :: earthquake where
  "quake_tohoku_null_mmi =
     \<lparr> time = Some \<lparr> year = 2011, month = 3 \<rparr>,
       entries = map_of
         [(''id'', PyStr ''official20110311054624120_30''),
          (''magnitude'', PyFloat (Fin 9.1)),
          (''place'', PyStr ''2011 Great Tohoku Earthquake, Japan''),
          (''longitude'', PyFloat (Fin 142.373)),
          (''latitude'', PyFloat (Fin 38.297)),
          (''depth'', PyFloat (Fin 29)),
          (''sig'', int_val 2184),
          (''mmi'', PyNone),
          (''cdi'', int_val 5),
          (''nst'', int_val 50),
          (''dmin'', PyFloat (Fin 1.0)),
          (''gap'', PyFloat (Fin 100.0)),
          (''url'', PyStr []),
          (''tsunami'', int_val 1)] \<rparr>"

text \<open>The risks the stand-in model gives them.\<close>

definition risk_moderado :: risk where
  "risk_moderado =
     \<lparr> probability = 0.5, risk_level = ''Moderado'', risk_color = ''#f59e0b'',
       risk_emoji = yellow_circle \<rparr>"

definition risk_muy_bajo :: risk where
  "risk_muy_bajo =
     \<lparr> probability = 0.1, risk_level = ''Muy Bajo'', risk_color = ''#10b981'',
       risk_emoji = green_circle \<rparr>"

definition risk_muy_alto :: risk where
  "risk_muy_alto =
     \<lparr> probability = 0.9, risk_level = ''Muy Alto'', risk_color = ''#ef4444'',
       risk_emoji = red_circle \<rparr>"

text \<open>What \<open>predict_tsunami\<close> returns for the form filled with "Japon 2011".\<close>

definition japan_result :: tsunami_result where
  "japan_result =
     \<lparr> probability = 0.9,
       risk_level = red_circle @ '' Alto'',
       risk_color = ''#dc3545'',
       prediction = 1,
       risk_factors = [factor_magnitude, factor_depth, factor_ocean, factor_mmi] \<rparr>"

text \<open>The probability the stand-in classifier assigns.\<close>

definition example_probability :: "real \<Rightarrow> real \<Rightarrow> real \<Rightarrow> real \<Rightarrow> real" where
  "example_probability la lo m d =
     (if d < 70 \<and> 7.5 < m then 0.9
      else if spec_pacific_ring la lo \<or> spec_indian_ocean la lo \<or> spec_caribbean la lo then 0.5
      else 0.1)"

section \<open>Basic facts\<close>

lemmas op_defs = py_lt_def py_gt_def py_ge_def py_add_def py_mul_def py_truediv_def
  pd_truediv_def bit_and_def bit_or_def bool_and_def bool_or_def int_of_bool_def

lemmas spec_defs = spec_pacific_ring_def spec_indian_ocean_def spec_caribbean_def

lemma rbind_Inr [simp]: "rbind (Inr x) f = f x"
  by (simp add: rbind_def)

lemma rbind_Inl [simp]: "rbind (Inl e) f = Inl e"
  by (simp add: rbind_def)

lemma rbind_eq_Inr: "rbind r f = Inr y \<longleftrightarrow> (\<exists>x. r = Inr x \<and> f x = Inr y)"
  by (cases r) simp_all

section \<open>Ocean proximity\<close>

lemma cop_app_Fin:
  "calculate_ocean_proximity_app (PyFloat (Fin lat)) (PyFloat (Fin lon)) =
     Inr (if spec_pacific_ring lat lon \<or> spec_indian_ocean lat lon \<or> spec_caribbean lat lon
          then 1 else 0)"
  by (simp add: calculate_ocean_proximity_app_def op_defs spec_defs)

lemma cop_mon_Fin:
  "calculate_ocean_proximity_mon (PyFloat (Fin lat)) (PyFloat (Fin lon)) =
     Inr (if spec_pacific_ring lat lon \<or> spec_indian_ocean lat lon \<or> spec_caribbean lat lon
          then 1 else 0)"
  by (auto simp add: calculate_ocean_proximity_mon_def op_defs spec_defs)

text \<open>
  C1. For a latitude in [-90, 90] and a longitude in [-180, 180], both versions of
  \<open>calculate_ocean_proximity\<close> return, without raising, 1 when the point lies strictly
  inside the Pacific Ring, Indian Ocean or Caribbean box and 0 otherwise; (35.0, 140.0)
  gives 1 and (0.0, 0.0) gives 0.
\<close>

theorem ocean_proximity_boxes:
  assumes "- 90 \<le> lat" and "lat \<le> 90" and "- 180 \<le> lon" and "lon \<le> 180"
  shows "calculate_ocean_proximity_app (PyFloat (Fin lat)) (PyFloat (Fin lon)) =
           Inr (if spec_pacific_ring lat lon \<or> spec_indian_ocean lat lon \<or> spec_caribbean lat lon
                then 1 else 0)
       \<and> calculate_ocean_proximity_mon (PyFloat (Fin lat)) (PyFloat (Fin lon)) =
           Inr (if spec_pacific_ring lat lon \<or> spec_indian_ocean lat lon \<or> spec_caribbean lat lon
                then 1 else 0)
       \<and> calculate_ocean_proximity_app (PyFloat (Fin 35.0)) (PyFloat (Fin 140.0)) = Inr 1
       \<and> calculate_ocean_proximity_mon (PyFloat (Fin 35.0)) (PyFloat (Fin 140.0)) = Inr 1
       \<and> calculate_ocean_proximity_app (PyFloat (Fin 0.0)) (PyFloat (Fin 0.0)) = Inr 0
       \<and> calculate_ocean_proximity_mon (PyFloat (Fin 0.0)) (PyFloat (Fin 0.0)) = Inr 0"
  by (simp add: cop_app_Fin cop_mon_Fin spec_defs)

theorem ocean_proximity_boxes_witness:
  "(- 90 :: real) \<le> 3.295 \<and> (3.295 :: real) \<le> 90
   \<and> (- 180 :: real) \<le> 95.982 \<and> (95.982 :: real) \<le> 180
   \<and> spec_indian_ocean 3.295 95.982
   \<and> calculate_ocean_proximity_app (PyFloat (Fin 3.295)) (PyFloat (Fin 95.982)) = Inr 1
   \<and> calculate_ocean_proximity_mon (PyFloat (Fin 3.295)) (PyFloat (Fin 95.982)) = Inr 1"
  using ocean_proximity_boxes [of "3.295" "95.982"] by (simp add: spec_defs)

text \<open>
  C9. The version of \<open>calculate_ocean_proximity\<close> written with \<open>&\<close> and \<open>|\<close> and the
  version written with \<open>and\<close> and \<open>or\<close> return the same result for every pair of
  numbers, not-a-number and the infinities included.
\<close>

theorem ocean_proximity_versions_agree:
  "calculate_ocean_proximity_app (PyFloat lat) (PyFloat lon) =
   calculate_ocean_proximity_mon (PyFloat lat) (PyFloat lon)"
  by (simp add: calculate_ocean_proximity_app_def calculate_ocean_proximity_mon_def op_defs)

theorem ocean_proximity_versions_agree_witness:
  "calculate_ocean_proximity_app (PyFloat (Fin (- 35.846))) (PyFloat (Fin (- 72.719))) = Inr 1
   \<and> calculate_ocean_proximity_mon (PyFloat (Fin (- 35.846))) (PyFloat (Fin (- 72.719))) = Inr 1
   \<and> calculate_ocean_proximity_app (PyFloat NaN) (PyFloat PosInf) = Inr 0
   \<and> calculate_ocean_proximity_mon (PyFloat NaN) (PyFloat PosInf) = Inr 0"
  using ocean_proximity_versions_agree [of "Fin (- 35.846)" "Fin (- 72.719)"]
    ocean_proximity_versions_agree [of NaN PosInf]
  by (simp add: calculate_ocean_proximity_mon_def op_defs)

section \<open>Derived features\<close>

lemma shallow_strong_app_Fin:
  "shallow_strong_app (PyFloat (Fin d)) (PyFloat (Fin m)) = Inr (if d < 70 \<and> 7.5 < m then 1 else 0)"
  by (simp add: shallow_strong_app_def op_defs)

lemma shallow_strong_mon_Fin:
  "shallow_strong_mon (PyFloat (Fin d)) (PyFloat (Fin m)) = Inr (if d < 70 \<and> 7.5 < m then 1 else 0)"
  by (simp add: shallow_strong_mon_def op_defs)

lemma engineer_features_shallow:
  assumes "engineer_features data = Inr out"
    and "data ''depth'' = Some depth" and "data ''magnitude'' = Some magnitude"
  shows "\<exists>s. shallow_strong_app depth magnitude = Inr s
            \<and> out ''shallow_strong'' = Some (int_val s)"
  using assms unfolding engineer_features_def
  by (auto simp: rbind_eq_Inr getitem_def split: option.splits)

lemma engineer_features_ratio:
  assumes "engineer_features data = Inr out"
    and "data ''depth'' = Some depth" and "data ''magnitude'' = Some magnitude"
  shows "\<exists>r. mag_depth_ratio_app magnitude depth = Inr r
            \<and> out ''mag_depth_ratio'' = Some (PyFloat r)"
  using assms unfolding engineer_features_def
  by (auto simp: rbind_eq_Inr getitem_def split: option.splits)


lemma input_data_of_mandatory:
  "input_data_of e ''magnitude'' = Some (fill_value e ''magnitude'' (PyFloat (Fin 5)))"
  "input_data_of e ''depth'' = Some (fill_value e ''depth'' (PyFloat (Fin 10)))"
  "input_data_of e ''latitude'' = Some (fill_value e ''latitude'' (PyFloat (Fin 0)))"
  "input_data_of e ''longitude'' = Some (fill_value e ''longitude'' (PyFloat (Fin 0)))"
  by (simp_all add: input_data_of_def defaults_def)

lemma fill_value_Fin:
  "e k = Some (PyFloat (Fin x)) \<Longrightarrow> fill_value e k d = PyFloat (Fin x)"
  by (simp add: fill_value_def get_default_def is_missing_def)

lemma derive_features_shallow:
  assumes "derive_features eq = Inr df"
  shows "\<exists>s. shallow_strong_mon (fill_value (entries eq) ''depth'' (PyFloat (Fin 10)))
                 (fill_value (entries eq) ''magnitude'' (PyFloat (Fin 5))) = Inr s
            \<and> df ''shallow_strong'' = Some (int_val s)"
  using assms unfolding derive_features_def Let_def
  by (auto simp: rbind_eq_Inr getitem_def input_data_of_mandatory split: option.splits)

lemma derive_features_ratio:
  assumes "derive_features eq = Inr df"
  shows "\<exists>r. mag_depth_ratio_mon (fill_value (entries eq) ''magnitude'' (PyFloat (Fin 5)))
                 (fill_value (entries eq) ''depth'' (PyFloat (Fin 10))) = Inr r
            \<and> df ''mag_depth_ratio'' = Some (PyFloat r)"
  using assms unfolding derive_features_def Let_def
  by (auto simp: rbind_eq_Inr getitem_def input_data_of_mandatory split: option.splits)


lemma japan_lookups:
  "japan_2011 ''latitude'' = Some (PyFloat (Fin 38.322))"
  "japan_2011 ''longitude'' = Some (PyFloat (Fin 142.369))"
  "japan_2011 ''magnitude'' = Some (PyFloat (Fin 9.1))"
  "japan_2011 ''depth'' = Some (PyFloat (Fin 29))"
  "japan_2011 ''mmi'' = Some (PyFloat (Fin 6))"
  "japan_2011 ''sig'' = Some (PyFloat (Fin 800))"
  by (simp_all add: japan_2011_def int_val_def)

lemma japan_engineer:
  "engineer_features japan_2011 =
     Inr (japan_2011(''ocean_proximity'' \<mapsto> int_val 1,
                     ''mag_depth_ratio'' \<mapsto> PyFloat (Fin (91 / 300)),
                     ''intensity_score'' \<mapsto> PyFloat (Fin 7.95),
                     ''shallow_strong'' \<mapsto> int_val 1))"
  by (simp add: engineer_features_def japan_lookups getitem_def get_default_def
      cop_app_Fin spec_defs mag_depth_ratio_app_def intensity_score_app_def shallow_strong_app_Fin
      py_add_def py_mul_def py_truediv_def)


lemma input_data_of_optional:
  "input_data_of e ''mmi'' = Some (fill_value e ''mmi'' (PyFloat (Fin 5)))"
  "input_data_of e ''sig'' = Some (fill_value e ''sig'' (int_val 1000))"
  by (simp_all add: input_data_of_def defaults_def)

lemma mag_depth_ratio_app_Fin:
  "d \<noteq> - 1 \<Longrightarrow> mag_depth_ratio_app (PyFloat (Fin m)) (PyFloat (Fin d)) = Inr (Fin (m / (d + 1)))"
  by (simp add: mag_depth_ratio_app_def py_add_def py_truediv_def add_eq_0_iff2)

lemma mag_depth_ratio_mon_Fin:
  "d \<noteq> - 1 \<Longrightarrow> mag_depth_ratio_mon (PyFloat (Fin m)) (PyFloat (Fin d)) = Inr (Fin (m / (d + 1)))"
  by (simp add: mag_depth_ratio_mon_def py_add_def pd_truediv_def add_eq_0_iff2)

lemma is_number_E: "is_number v \<Longrightarrow> \<exists>x. v = Some (PyFloat x)"
  by (auto simp: is_number_def split: option.splits pyval.splits)

lemma fill_value_not_text:
  assumes "not_text (e k)" and "\<exists>x. d = PyFloat x"
  shows "\<exists>x. fill_value e k d = PyFloat x"
  using assms
  by (auto simp: not_text_def fill_value_def get_default_def is_missing_def
      split: option.splits pyval.splits)

lemma cop_app_total: "\<exists>p. calculate_ocean_proximity_app (PyFloat a) (PyFloat b) = Inr p"
  by (simp add: calculate_ocean_proximity_app_def op_defs)

lemma cop_mon_total: "\<exists>p. calculate_ocean_proximity_mon (PyFloat a) (PyFloat b) = Inr p"
  using cop_app_total [of a b]
  by (simp add: calculate_ocean_proximity_app_def calculate_ocean_proximity_mon_def op_defs)

lemma intensity_score_mon_total:
  "\<exists>s. intensity_score_mon (PyFloat a) (PyFloat b) (PyFloat c) = Inr s"
  by (simp add: intensity_score_mon_def op_defs)

lemma intensity_score_app_total:
  "\<exists>s. intensity_score_app (PyFloat a) (PyFloat b) (PyFloat c) = Inr s"
  by (simp add: intensity_score_app_def op_defs)

lemma derive_features_total:
  assumes "time eq = Some dt"
    and "entries eq ''depth'' = Some (PyFloat (Fin d))"
    and "entries eq ''magnitude'' = Some (PyFloat (Fin m))"
    and "not_text (entries eq ''latitude'')" and "not_text (entries eq ''longitude'')"
    and "not_text (entries eq ''mmi'')" and "not_text (entries eq ''sig'')"
  shows "\<exists>df. derive_features eq = Inr df"
proof -
  obtain la where la: "fill_value (entries eq) ''latitude'' (PyFloat (Fin 0)) = PyFloat la"
    using fill_value_not_text [of "entries eq" "''latitude''"] assms(4) by blast
  obtain lo where lo: "fill_value (entries eq) ''longitude'' (PyFloat (Fin 0)) = PyFloat lo"
    using fill_value_not_text [of "entries eq" "''longitude''"] assms(5) by blast
  obtain mi where mi: "fill_value (entries eq) ''mmi'' (PyFloat (Fin 5)) = PyFloat mi"
    using fill_value_not_text [of "entries eq" "''mmi''"] assms(6) by blast
  obtain sg where sg: "fill_value (entries eq) ''sig'' (int_val 1000) = PyFloat sg"
    using fill_value_not_text [of "entries eq" "''sig''" "int_val 1000"] assms(7)
    by (auto simp: int_val_def)
  obtain p where p: "calculate_ocean_proximity_mon (PyFloat la) (PyFloat lo) = Inr p"
    using cop_mon_total by blast
  obtain s where s: "intensity_score_mon (PyFloat (Fin m)) (PyFloat mi) (PyFloat sg) = Inr s"
    using intensity_score_mon_total by blast
  obtain r where r: "mag_depth_ratio_mon (PyFloat (Fin m)) (PyFloat (Fin d)) = Inr r"
    by (simp add: mag_depth_ratio_mon_def py_add_def pd_truediv_def)
  have dp: "fill_value (entries eq) ''depth'' (PyFloat (Fin 10)) = PyFloat (Fin d)"
    using assms(2) by (rule fill_value_Fin)
  have mg: "fill_value (entries eq) ''magnitude'' (PyFloat (Fin 5)) = PyFloat (Fin m)"
    using assms(3) by (rule fill_value_Fin)
  show ?thesis
    using assms(1)
    by (simp add: derive_features_def lookup_def getitem_def input_data_of_mandatory
        input_data_of_optional dp mg la lo mi sg p s r shallow_strong_mon_Fin)
qed

lemma engineer_features_total:
  assumes "data ''depth'' = Some (PyFloat (Fin d))" and "d \<noteq> - 1"
    and "data ''magnitude'' = Some (PyFloat (Fin m))"
    and "is_number (data ''latitude'')" and "is_number (data ''longitude'')"
    and "number_or_absent (data ''mmi'')" and "number_or_absent (data ''sig'')"
  shows "\<exists>out. engineer_features data = Inr out"
proof -
  obtain la where la: "data ''latitude'' = Some (PyFloat la)"
    using is_number_E [OF assms(4)] by blast
  obtain lo where lo: "data ''longitude'' = Some (PyFloat lo)"
    using is_number_E [OF assms(5)] by blast
  obtain mi where mi: "get_default data ''mmi'' (int_val 0) = PyFloat mi"
    using assms(6)
    by (auto simp: number_or_absent_def get_default_def int_val_def
        split: option.splits pyval.splits)
  obtain sg where sg: "get_default data ''sig'' (int_val 0) = PyFloat sg"
    using assms(7)
    by (auto simp: number_or_absent_def get_default_def int_val_def
        split: option.splits pyval.splits)
  obtain p where p: "calculate_ocean_proximity_app (PyFloat la) (PyFloat lo) = Inr p"
    using cop_app_total by blast
  obtain s where s: "intensity_score_app (PyFloat (Fin m)) (PyFloat mi) (PyFloat sg) = Inr s"
    using intensity_score_app_total by blast
  show ?thesis
    using assms(2)
    by (simp add: engineer_features_def getitem_def la lo assms(1) assms(3) mi sg p s
        mag_depth_ratio_app_Fin shallow_strong_app_Fin)
qed

lemma null_mmi_entries:
  "time quake_tohoku_null_mmi = Some \<lparr> year = 2011, month = 3 \<rparr>"
  "entries quake_tohoku_null_mmi ''depth'' = Some (PyFloat (Fin 29))"
  "entries quake_tohoku_null_mmi ''magnitude'' = Some (PyFloat (Fin 9.1))"
  "entries quake_tohoku_null_mmi ''latitude'' = Some (PyFloat (Fin 38.297))"
  "entries quake_tohoku_null_mmi ''longitude'' = Some (PyFloat (Fin 142.373))"
  "entries quake_tohoku_null_mmi ''mmi'' = Some PyNone"
  "entries quake_tohoku_null_mmi ''sig'' = Some (PyFloat (Fin 2184))"
  by (simp_all add: quake_tohoku_null_mmi_def int_val_def)

lemma null_mmi_not_text:
  "not_text (entries quake_tohoku_null_mmi ''latitude'')"
  "not_text (entries quake_tohoku_null_mmi ''longitude'')"
  "not_text (entries quake_tohoku_null_mmi ''mmi'')"
  "not_text (entries quake_tohoku_null_mmi ''sig'')"
  by (simp_all add: not_text_def null_mmi_entries)

lemma null_mmi_derives: "\<exists>df. derive_features quake_tohoku_null_mmi = Inr df"
  using null_mmi_entries(1) null_mmi_entries(2) null_mmi_entries(3) null_mmi_not_text
  by (rule derive_features_total)

lemma null_mmi_engineer: "engineer_features (entries quake_tohoku_null_mmi) = Inl TypeError"
  by (simp add: engineer_features_def getitem_def get_default_def null_mmi_entries cop_app_Fin
      mag_depth_ratio_app_Fin intensity_score_app_def py_mul_def)

text \<open>
  C2. For an event whose depth and magnitude are numbers, the derived feature
  \<open>shallow_strong\<close> is 1 when depth < 70 and magnitude > 7.5 and 0 otherwise: in whatever
  \<open>engineer_features\<close> returns, and, independently of that, in whatever data frame
  \<open>predict_tsunami_risk\<close> derives. \<open>engineer_features\<close> does return when the depth is
  not -1, the coordinates are numbers and mmi and sig are numbers or absent; the data
  frame is derived when the event has a time and none of the coordinates, mmi and sig is
  a string. At depth = 70 or magnitude = 7.5 the feature is 0.
\<close>

theorem shallow_strong_iff:
  assumes "data ''depth'' = Some (PyFloat (Fin d))"
    and "data ''magnitude'' = Some (PyFloat (Fin m))"
  shows "(engineer_features data = Inr out \<longrightarrow>
            out ''shallow_strong'' = Some (int_val (if d < 70 \<and> 7.5 < m then 1 else 0)))
       \<and> (entries eq = data \<and> derive_features eq = Inr df \<longrightarrow>
            df ''shallow_strong'' = Some (int_val (if d < 70 \<and> 7.5 < m then 1 else 0)))
       \<and> (d \<noteq> - 1 \<and> is_number (data ''latitude'') \<and> is_number (data ''longitude'')
            \<and> number_or_absent (data ''mmi'') \<and> number_or_absent (data ''sig'') \<longrightarrow>
            (\<exists>out'. engineer_features data = Inr out'))
       \<and> (entries eq = data \<and> time eq \<noteq> None
            \<and> not_text (data ''latitude'') \<and> not_text (data ''longitude'')
            \<and> not_text (data ''mmi'') \<and> not_text (data ''sig'') \<longrightarrow>
            (\<exists>df'. derive_features eq = Inr df'))
       \<and> shallow_strong_app (PyFloat (Fin d)) (PyFloat (Fin m)) =
           Inr (if d < 70 \<and> 7.5 < m then 1 else 0)
       \<and> shallow_strong_mon (PyFloat (Fin d)) (PyFloat (Fin m)) =
           Inr (if d < 70 \<and> 7.5 < m then 1 else 0)
       \<and> shallow_strong_app (PyFloat (Fin 70)) (PyFloat (Fin m)) = Inr 0
       \<and> shallow_strong_mon (PyFloat (Fin 70)) (PyFloat (Fin m)) = Inr 0
       \<and> shallow_strong_app (PyFloat (Fin d)) (PyFloat (Fin 7.5)) = Inr 0
       \<and> shallow_strong_mon (PyFloat (Fin d)) (PyFloat (Fin 7.5)) = Inr 0"
proof -
  have a: "out ''shallow_strong'' = Some (int_val (if d < 70 \<and> 7.5 < m then 1 else 0))"
    if "engineer_features data = Inr out"
    using engineer_features_shallow [OF that assms(1) assms(2)]
    by (auto simp: shallow_strong_app_Fin)
  have b: "df ''shallow_strong'' = Some (int_val (if d < 70 \<and> 7.5 < m then 1 else 0))"
    if "entries eq = data" and "derive_features eq = Inr df"
    using derive_features_shallow [OF that(2)] assms that(1)
    by (auto simp: shallow_strong_mon_Fin fill_value_Fin)
  have c: "\<exists>out'. engineer_features data = Inr out'"
    if "d \<noteq> - 1" and "is_number (data ''latitude'')" and "is_number (data ''longitude'')"
      and "number_or_absent (data ''mmi'')" and "number_or_absent (data ''sig'')"
    using assms(1) that(1) assms(2) that(2-5) by (rule engineer_features_total)
  have e: "\<exists>df'. derive_features eq = Inr df'"
    if "entries eq = data" and "time eq \<noteq> None"
      and "not_text (data ''latitude'')" and "not_text (data ''longitude'')"
      and "not_text (data ''mmi'')" and "not_text (data ''sig'')"
  proof -
    from that(2) obtain dt where "time eq = Some dt" by auto
    then show ?thesis
      using assms that(1,3-6) by (intro derive_features_total [of eq dt d m]) simp_all
  qed
  have f: "shallow_strong_app (PyFloat (Fin d)) (PyFloat (Fin m)) =
           Inr (if d < 70 \<and> 7.5 < m then 1 else 0)"
    "shallow_strong_mon (PyFloat (Fin d)) (PyFloat (Fin m)) =
           Inr (if d < 70 \<and> 7.5 < m then 1 else 0)"
    "shallow_strong_app (PyFloat (Fin 70)) (PyFloat (Fin m)) = Inr 0"
    "shallow_strong_mon (PyFloat (Fin 70)) (PyFloat (Fin m)) = Inr 0"
    "shallow_strong_app (PyFloat (Fin d)) (PyFloat (Fin 7.5)) = Inr 0"
    "shallow_strong_mon (PyFloat (Fin d)) (PyFloat (Fin 7.5)) = Inr 0"
    by (simp_all add: shallow_strong_app_Fin shallow_strong_mon_Fin)
  from a b c e f show ?thesis by blast
qed

theorem shallow_strong_iff_witness:
  "map_sum id (\<lambda>out. out ''shallow_strong'') (engineer_features japan_2011) =
     Inr (Some (int_val 1))
   \<and> map_sum id (\<lambda>df. df ''shallow_strong'') (derive_features quake_tohoku_null_mmi) =
     Inr (Some (int_val 1))
   \<and> engineer_features (entries quake_tohoku_null_mmi) = Inl TypeError
   \<and> shallow_strong_app (PyFloat (Fin 29)) (PyFloat (Fin 9.1)) = Inr 1
   \<and> shallow_strong_mon (PyFloat (Fin 29)) (PyFloat (Fin 9.1)) = Inr 1"
proof -
  obtain out where out: "engineer_features japan_2011 = Inr out"
    using japan_engineer by blast
  obtain df where df: "derive_features quake_tohoku_null_mmi = Inr df"
    using null_mmi_derives by blast
  have "out ''shallow_strong'' = Some (int_val (if (29 :: real) < 70 \<and> 7.5 < (9.1 :: real) then 1 else 0))"
    using shallow_strong_iff [OF japan_lookups(4) japan_lookups(3), of out] out by blast
  then have a: "map_sum id (\<lambda>out. out ''shallow_strong'') (engineer_features japan_2011) =
     Inr (Some (int_val 1))"
    by (simp add: out)
  note t = shallow_strong_iff [OF null_mmi_entries(2) null_mmi_entries(3),
      of _ quake_tohoku_null_mmi df]
  have "df ''shallow_strong'' = Some (int_val (if (29 :: real) < 70 \<and> 7.5 < (9.1 :: real) then 1 else 0))"
    using t df by blast
  then have b: "map_sum id (\<lambda>df. df ''shallow_strong'') (derive_features quake_tohoku_null_mmi) =
     Inr (Some (int_val 1))"
    by (simp add: df)
  have c: "shallow_strong_app (PyFloat (Fin 29)) (PyFloat (Fin 9.1)) = Inr 1"
    "shallow_strong_mon (PyFloat (Fin 29)) (PyFloat (Fin 9.1)) = Inr 1"
    by (simp_all add: shallow_strong_app_Fin shallow_strong_mon_Fin)
  from a b c null_mmi_engineer show ?thesis by blast
qed

section \<open>The stand-in model on the concrete earthquakes\<close>

lemma built:
  "earthquake_of_feature example_env feature_honshu = Inr quake_honshu"
  "earthquake_of_feature example_env feature_null_mag = Inr quake_null_mag"
  "earthquake_of_feature example_env feature_tohoku = Inr quake_tohoku"
  "earthquake_of_feature example_env feature_kyushu = Inr quake_kyushu"
  by (simp_all add: earthquake_of_feature_def example_env_def lookup_def getitem_def
      list_get_def get_default_def py_truediv_def int_val_def
      feature_honshu_def feature_null_mag_def feature_tohoku_def feature_kyushu_def
      quake_honshu_def quake_null_mag_def quake_tohoku_def quake_kyushu_def)

lemma fetch_example:
  "fetch_recent_earthquakes example_env 60 5 =
     [quake_honshu, quake_null_mag, quake_tohoku, quake_kyushu]"
proof -
  have q: "usgs_query example_env 60 5 =
      Document (Some [feature_honshu, feature_null_mag, feature_tohoku, feature_kyushu])"
    by (simp add: example_env_def)
  show ?thesis
    by (simp add: fetch_recent_earthquakes_def q built)
qed

lemma example_model_sel:
  "feature_names example_model = [''magnitude'', ''depth'', ''ocean_proximity'', ''shallow_strong'']"
  "scaler_transform example_model = example_transform"
  "predict_proba example_model = example_proba"
  by (simp_all add: example_model_def)

lemma score_features_example:
  assumes "time eq = Some dt"
    and "fill_value (entries eq) ''latitude'' (PyFloat (Fin 0)) = PyFloat (Fin la)"
    and "fill_value (entries eq) ''longitude'' (PyFloat (Fin 0)) = PyFloat (Fin lo)"
    and "fill_value (entries eq) ''magnitude'' (PyFloat (Fin 5)) = PyFloat (Fin m)"
    and "fill_value (entries eq) ''depth'' (PyFloat (Fin 10)) = PyFloat (Fin d)"
    and "fill_value (entries eq) ''mmi'' (PyFloat (Fin 5)) = PyFloat (Fin mi)"
    and "fill_value (entries eq) ''sig'' (int_val 1000) = PyFloat (Fin sg)"
    and "d \<noteq> - 1"
  shows "score_features example_model eq =
     Inr \<lparr> probability = example_probability la lo m d,
           risk_level = fst (risk_tier5 (example_probability la lo m d)),
           risk_color = fst (snd (risk_tier5 (example_probability la lo m d))),
           risk_emoji = snd (snd (risk_tier5 (example_probability la lo m d))) \<rparr>"
proof -
  have df: "derive_features eq =
      Inr ((input_data_of (entries eq))
            (''Year'' \<mapsto> int_val (year dt), ''Month'' \<mapsto> int_val (month dt),
             ''ocean_proximity'' \<mapsto> int_val (if spec_pacific_ring la lo \<or>
                  spec_indian_ocean la lo \<or> spec_caribbean la lo then 1 else 0),
             ''mag_depth_ratio'' \<mapsto> PyFloat (Fin (m / (d + 1))),
             ''intensity_score'' \<mapsto> PyFloat (Fin (m * 0.5 + mi * 0.3 + sg / 100 * 0.2)),
             ''shallow_strong'' \<mapsto> int_val (if d < 70 \<and> 7.5 < m then 1 else 0)))"
    using assms
    by (simp add: derive_features_def lookup_def getitem_def input_data_of_mandatory
        input_data_of_optional cop_mon_Fin mag_depth_ratio_mon_def intensity_score_mon_def
        shallow_strong_mon_def op_defs add_eq_0_iff2)
  show ?thesis
    using assms(4,5)
    by (simp add: score_features_def df example_model_sel getitem_def
        input_data_of_mandatory int_val_def example_probability_def)
qed

lemma quake_fills:
  "fill_value (entries quake_honshu) ''latitude'' (PyFloat (Fin 0)) = PyFloat (Fin 37)"
  "fill_value (entries quake_honshu) ''longitude'' (PyFloat (Fin 0)) = PyFloat (Fin 141.5)"
  "fill_value (entries quake_honshu) ''magnitude'' (PyFloat (Fin 5)) = PyFloat (Fin 6.2)"
  "fill_value (entries quake_honshu) ''depth'' (PyFloat (Fin 10)) = PyFloat (Fin 40)"
  "fill_value (entries quake_honshu) ''mmi'' (PyFloat (Fin 5)) = PyFloat (Fin 5)"
  "fill_value (entries quake_honshu) ''sig'' (int_val 1000) = PyFloat (Fin 1000)"
  "fill_value (entries quake_null_mag) ''latitude'' (PyFloat (Fin 0)) = PyFloat (Fin (- 30))"
  "fill_value (entries quake_null_mag) ''longitude'' (PyFloat (Fin 0)) = PyFloat (Fin (- 20))"
  "fill_value (entries quake_null_mag) ''magnitude'' (PyFloat (Fin 5)) = PyFloat (Fin 5)"
  "fill_value (entries quake_null_mag) ''depth'' (PyFloat (Fin 10)) = PyFloat (Fin 10)"
  "fill_value (entries quake_null_mag) ''mmi'' (PyFloat (Fin 5)) = PyFloat (Fin 5)"
  "fill_value (entries quake_null_mag) ''sig'' (int_val 1000) = PyFloat (Fin 1000)"
  "fill_value (entries quake_tohoku) ''latitude'' (PyFloat (Fin 0)) = PyFloat (Fin 38.297)"
  "fill_value (entries quake_tohoku) ''longitude'' (PyFloat (Fin 0)) = PyFloat (Fin 142.373)"
  "fill_value (entries quake_tohoku) ''magnitude'' (PyFloat (Fin 5)) = PyFloat (Fin 9.1)"
  "fill_value (entries quake_tohoku) ''depth'' (PyFloat (Fin 10)) = PyFloat (Fin 29)"
  "fill_value (entries quake_tohoku) ''mmi'' (PyFloat (Fin 5)) = PyFloat (Fin 8.7)"
  "fill_value (entries quake_tohoku) ''sig'' (int_val 1000) = PyFloat (Fin 2184)"
  "fill_value (entries quake_kyushu) ''latitude'' (PyFloat (Fin 0)) = PyFloat (Fin 32)"
  "fill_value (entries quake_kyushu) ''longitude'' (PyFloat (Fin 0)) = PyFloat (Fin 131)"
  "fill_value (entries quake_kyushu) ''magnitude'' (PyFloat (Fin 5)) = PyFloat (Fin 5.8)"
  "fill_value (entries quake_kyushu) ''depth'' (PyFloat (Fin 10)) = PyFloat (Fin 35)"
  "fill_value (entries quake_kyushu) ''mmi'' (PyFloat (Fin 5)) = PyFloat (Fin 5)"
  "fill_value (entries quake_kyushu) ''sig'' (int_val 1000) = PyFloat (Fin 1000)"
  by (simp_all add: fill_value_def get_default_def is_missing_def int_val_def
      quake_honshu_def quake_null_mag_def quake_tohoku_def quake_kyushu_def)

lemma quake_times:
  "time quake_honshu = Some \<lparr> year = 2011, month = 3 \<rparr>"
  "time quake_null_mag = Some \<lparr> year = 2011, month = 3 \<rparr>"
  "time quake_tohoku = Some \<lparr> year = 2011, month = 3 \<rparr>"
  "time quake_kyushu = Some \<lparr> year = 2011, month = 3 \<rparr>"
  by (simp_all add: quake_honshu_def quake_null_mag_def quake_tohoku_def quake_kyushu_def)

lemma predict_examples:
  "predict_tsunami_risk (Some example_model) quake_honshu = Some risk_moderado"
  "predict_tsunami_risk (Some example_model) quake_null_mag = Some risk_muy_bajo"
  "predict_tsunami_risk (Some example_model) quake_tohoku = Some risk_muy_alto"
  "predict_tsunami_risk (Some example_model) quake_kyushu = Some risk_moderado"
proof -
  show "predict_tsunami_risk (Some example_model) quake_honshu = Some risk_moderado"
    using score_features_example [OF quake_times(1) quake_fills(1-6)]
    by (simp add: predict_tsunami_risk_def example_probability_def spec_defs risk_tier5_def
        risk_moderado_def)
  show "predict_tsunami_risk (Some example_model) quake_null_mag = Some risk_muy_bajo"
    using score_features_example [OF quake_times(2) quake_fills(7-12)]
    by (simp add: predict_tsunami_risk_def example_probability_def spec_defs risk_tier5_def
        risk_muy_bajo_def)
  show "predict_tsunami_risk (Some example_model) quake_tohoku = Some risk_muy_alto"
    using score_features_example [OF quake_times(3) quake_fills(13-18)]
    by (simp add: predict_tsunami_risk_def example_probability_def spec_defs risk_tier5_def
        risk_muy_alto_def)
  show "predict_tsunami_risk (Some example_model) quake_kyushu = Some risk_moderado"
    using score_features_example [OF quake_times(4) quake_fills(19-24)]
    by (simp add: predict_tsunami_risk_def example_probability_def spec_defs risk_tier5_def
        risk_moderado_def)
qed

section \<open>Magnitude-to-depth ratio\<close>

lemma ratio_antitone:
  fixes m d d' :: real
  assumes "0 \<le> d" and "d \<le> d'" and "0 \<le> m"
  shows "m / (d' + 1) \<le> m / (d + 1)"
  using assms by (intro divide_left_mono) (auto intro: mult_pos_pos)

text \<open>
  C8 (amended). For an event with depth_km \<ge> 0 and any magnitude, \<open>mag_depth_ratio\<close> is
  magnitude / (depth_km + 1) in whatever \<open>engineer_features\<close> returns and in whatever
  data frame \<open>predict_tsunami_risk\<close> derives, both of which exist under the conditions of
  C2; the divisor is at least 1. For a fixed magnitude \<ge> 0 a larger depth never gives a
  larger ratio. No strict order is stated: the model divides exactly, while two depths a
  rounding step apart give one and the same double.
\<close>

theorem mag_depth_ratio_nonneg_magnitude:
  assumes "0 \<le> d"
    and "data ''depth'' = Some (PyFloat (Fin d))"
    and "data ''magnitude'' = Some (PyFloat (Fin m))"
  shows "(engineer_features data = Inr out \<longrightarrow>
            out ''mag_depth_ratio'' = Some (PyFloat (Fin (m / (d + 1)))))
       \<and> (entries eq = data \<and> derive_features eq = Inr df \<longrightarrow>
            df ''mag_depth_ratio'' = Some (PyFloat (Fin (m / (d + 1)))))
       \<and> (is_number (data ''latitude'') \<and> is_number (data ''longitude'')
            \<and> number_or_absent (data ''mmi'') \<and> number_or_absent (data ''sig'') \<longrightarrow>
            (\<exists>out'. engineer_features data = Inr out'))
       \<and> (entries eq = data \<and> time eq \<noteq> None
            \<and> not_text (data ''latitude'') \<and> not_text (data ''longitude'')
            \<and> not_text (data ''mmi'') \<and> not_text (data ''sig'') \<longrightarrow>
            (\<exists>df'. derive_features eq = Inr df'))
       \<and> mag_depth_ratio_app (PyFloat (Fin m)) (PyFloat (Fin d)) = Inr (Fin (m / (d + 1)))
       \<and> mag_depth_ratio_mon (PyFloat (Fin m)) (PyFloat (Fin d)) = Inr (Fin (m / (d + 1)))
       \<and> 1 \<le> d + 1
       \<and> (d \<le> d' \<longrightarrow>
            mag_depth_ratio_app (PyFloat (Fin m)) (PyFloat (Fin d')) = Inr (Fin (m / (d' + 1)))
          \<and> mag_depth_ratio_mon (PyFloat (Fin m)) (PyFloat (Fin d')) = Inr (Fin (m / (d' + 1))))
       \<and> (0 \<le> m \<and> d \<le> d' \<longrightarrow> m / (d' + 1) \<le> m / (d + 1))"
proof -
  have d: "d \<noteq> - 1" using assms(1) by auto
  have a: "out ''mag_depth_ratio'' = Some (PyFloat (Fin (m / (d + 1))))"
    if "engineer_features data = Inr out"
    using engineer_features_ratio [OF that assms(2) assms(3)]
    by (auto simp: mag_depth_ratio_app_Fin [OF d])
  have b: "df ''mag_depth_ratio'' = Some (PyFloat (Fin (m / (d + 1))))"
    if "entries eq = data" and "derive_features eq = Inr df"
    using derive_features_ratio [OF that(2)] assms(2,3) that(1)
    by (auto simp: mag_depth_ratio_mon_Fin [OF d] fill_value_Fin)
  have c: "\<exists>out'. engineer_features data = Inr out'"
    if "is_number (data ''latitude'')" and "is_number (data ''longitude'')"
      and "number_or_absent (data ''mmi'')" and "number_or_absent (data ''sig'')"
    using assms(2) d assms(3) that by (rule engineer_features_total)
  have e: "\<exists>df'. derive_features eq = Inr df'"
    if "entries eq = data" and "time eq \<noteq> None"
      and "not_text (data ''latitude'')" and "not_text (data ''longitude'')"
      and "not_text (data ''mmi'')" and "not_text (data ''sig'')"
  proof -
    from that(2) obtain dt where "time eq = Some dt" by auto
    then show ?thesis
      using assms(2,3) that(1,3-6) by (intro derive_features_total [of eq dt d m]) simp_all
  qed
  have f: "mag_depth_ratio_app (PyFloat (Fin m)) (PyFloat (Fin d)) = Inr (Fin (m / (d + 1)))"
    "mag_depth_ratio_mon (PyFloat (Fin m)) (PyFloat (Fin d)) = Inr (Fin (m / (d + 1)))"
    by (simp_all add: mag_depth_ratio_app_Fin [OF d] mag_depth_ratio_mon_Fin [OF d])
  have g: "1 \<le> d + 1" using assms(1) by simp
  have h: "mag_depth_ratio_app (PyFloat (Fin m)) (PyFloat (Fin d')) = Inr (Fin (m / (d' + 1)))
         \<and> mag_depth_ratio_mon (PyFloat (Fin m)) (PyFloat (Fin d')) = Inr (Fin (m / (d' + 1)))"
    if "d \<le> d'"
  proof -
    from that assms(1) have "d' \<noteq> - 1" by auto
    then show ?thesis
      by (simp add: mag_depth_ratio_app_Fin mag_depth_ratio_mon_Fin)
  qed
  have i: "m / (d' + 1) \<le> m / (d + 1)" if "0 \<le> m" and "d \<le> d'"
    using assms(1) that(2) that(1) by (rule ratio_antitone)
  from a b c e f g h i show ?thesis by blast
qed

text \<open>
  For a negative magnitude the ratio grows with the depth: at magnitude -1 it is -1 at
  depth 0 and -1/2 at depth 1.
\<close>

theorem mag_depth_ratio_negative_magnitude:
  "mag_depth_ratio_app (PyFloat (Fin (- 1))) (PyFloat (Fin 0)) = Inr (Fin (- 1))
   \<and> mag_depth_ratio_app (PyFloat (Fin (- 1))) (PyFloat (Fin 1)) = Inr (Fin (- (1 / 2)))
   \<and> mag_depth_ratio_mon (PyFloat (Fin (- 1))) (PyFloat (Fin 0)) = Inr (Fin (- 1))
   \<and> mag_depth_ratio_mon (PyFloat (Fin (- 1))) (PyFloat (Fin 1)) = Inr (Fin (- (1 / 2)))
   \<and> (0 :: real) < 1 \<and> (- 1 :: real) < - (1 / 2)"
  by (simp add: mag_depth_ratio_app_def mag_depth_ratio_mon_def py_add_def py_truediv_def
      pd_truediv_def)

theorem mag_depth_ratio_nonneg_magnitude_witness:
  "map_sum id (\<lambda>out. out ''mag_depth_ratio'') (engineer_features japan_2011) =
     Inr (Some (PyFloat (Fin (91 / 300))))
   \<and> map_sum id (\<lambda>df. df ''mag_depth_ratio'') (derive_features quake_tohoku_null_mmi) =
     Inr (Some (PyFloat (Fin (91 / 300))))
   \<and> mag_depth_ratio_app (PyFloat (Fin 9.1)) (PyFloat (Fin 29)) = Inr (Fin (91 / 300))
   \<and> mag_depth_ratio_mon (PyFloat (Fin 9.1)) (PyFloat (Fin 29)) = Inr (Fin (91 / 300))
   \<and> mag_depth_ratio_app (PyFloat (Fin 9.1)) (PyFloat (Fin 30)) = Inr (Fin (91 / 310))
   \<and> mag_depth_ratio_mon (PyFloat (Fin 9.1)) (PyFloat (Fin 30)) = Inr (Fin (91 / 310))
   \<and> (91 / 310 :: real) \<le> 91 / 300"
proof -
  have z: "(0 :: real) \<le> 29" by simp
  obtain out where out: "engineer_features japan_2011 = Inr out"
    using japan_engineer by blast
  obtain df where df: "derive_features quake_tohoku_null_mmi = Inr df"
    using null_mmi_derives by blast
  note s = mag_depth_ratio_nonneg_magnitude [OF z japan_lookups(4) japan_lookups(3),
      of out _ _ 30]
  note t = mag_depth_ratio_nonneg_magnitude [OF z null_mmi_entries(2) null_mmi_entries(3),
      of _ quake_tohoku_null_mmi df 30]
  have "out ''mag_depth_ratio'' = Some (PyFloat (Fin (9.1 / (29 + 1))))"
    using s out by blast
  then have a: "map_sum id (\<lambda>out. out ''mag_depth_ratio'') (engineer_features japan_2011) =
     Inr (Some (PyFloat (Fin (91 / 300))))"
    by (simp add: out)
  have "df ''mag_depth_ratio'' = Some (PyFloat (Fin (9.1 / (29 + 1))))"
    using t df by blast
  then have b: "map_sum id (\<lambda>df. df ''mag_depth_ratio'') (derive_features quake_tohoku_null_mmi) =
     Inr (Some (PyFloat (Fin (91 / 300))))"
    by (simp add: df)
  have c: "mag_depth_ratio_app (PyFloat (Fin 9.1)) (PyFloat (Fin 29)) = Inr (Fin (91 / 300))"
    "mag_depth_ratio_mon (PyFloat (Fin 9.1)) (PyFloat (Fin 29)) = Inr (Fin (91 / 300))"
    "mag_depth_ratio_app (PyFloat (Fin 9.1)) (PyFloat (Fin 30)) = Inr (Fin (91 / 310))"
    "mag_depth_ratio_mon (PyFloat (Fin 9.1)) (PyFloat (Fin 30)) = Inr (Fin (91 / 310))"
    by (simp_all add: mag_depth_ratio_app_Fin mag_depth_ratio_mon_Fin)
  have e: "(91 / 310 :: real) \<le> 91 / 300" by simp
  from a b c e show ?thesis by blast
qed

section \<open>Risk tiers\<close>

lemma predict_tsunami_risk_tier:
  assumes "predict_tsunami_risk model eq = Some r"
  shows "(risk_level r, risk_color r, risk_emoji r) = risk_tier5 (probability r)"
  using assms unfolding predict_tsunami_risk_def score_features_def
  by (auto simp: rbind_eq_Inr split: option.splits sum.splits)

text \<open>
  C3. The risk \<open>predict_tsunami_risk\<close> returns carries the level, colour and emblem of
  the five-tier mapping of its probability. That mapping sends p < 0.2 to Muy Bajo,
  0.2 \<le> p < 0.4 to Bajo, 0.4 \<le> p < 0.6 to Moderado, 0.6 \<le> p < 0.8 to Alto and
  p \<ge> 0.8 to Muy Alto, and to these only there; a probability on a boundary takes the
  higher tier, and the five levels are different.
\<close>

theorem five_tier_partition:
  assumes "predict_tsunami_risk model eq = Some r"
  shows "(risk_level r, risk_color r, risk_emoji r) = risk_tier5 (probability r)
       \<and> (p < 0.2) = (risk_tier5 p = (''Muy Bajo'', ''#10b981'', green_circle))
       \<and> (0.2 \<le> p \<and> p < 0.4) = (risk_tier5 p = (''Bajo'', ''#84cc16'', green_circle))
       \<and> (0.4 \<le> p \<and> p < 0.6) = (risk_tier5 p = (''Moderado'', ''#f59e0b'', yellow_circle))
       \<and> (0.6 \<le> p \<and> p < 0.8) = (risk_tier5 p = (''Alto'', ''#f97316'', orange_circle))
       \<and> (0.8 \<le> p) = (risk_tier5 p = (''Muy Alto'', ''#ef4444'', red_circle))
       \<and> fst (risk_tier5 0.2) = ''Bajo''
       \<and> fst (risk_tier5 0.4) = ''Moderado''
       \<and> fst (risk_tier5 0.6) = ''Alto''
       \<and> fst (risk_tier5 0.8) = ''Muy Alto''
       \<and> distinct [''Muy Bajo'', ''Bajo'', ''Moderado'', ''Alto'', ''Muy Alto'']"
proof -
  have tiers: "(p < 0.2) = (risk_tier5 p = (''Muy Bajo'', ''#10b981'', green_circle))"
    "(0.2 \<le> p \<and> p < 0.4) = (risk_tier5 p = (''Bajo'', ''#84cc16'', green_circle))"
    "(0.4 \<le> p \<and> p < 0.6) = (risk_tier5 p = (''Moderado'', ''#f59e0b'', yellow_circle))"
    "(0.6 \<le> p \<and> p < 0.8) = (risk_tier5 p = (''Alto'', ''#f97316'', orange_circle))"
    "(0.8 \<le> p) = (risk_tier5 p = (''Muy Alto'', ''#ef4444'', red_circle))"
    by (auto simp: risk_tier5_def)
  have bounds: "fst (risk_tier5 0.2) = ''Bajo''" "fst (risk_tier5 0.4) = ''Moderado''"
    "fst (risk_tier5 0.6) = ''Alto''" "fst (risk_tier5 0.8) = ''Muy Alto''"
    by (simp_all add: risk_tier5_def)
  have names: "distinct [''Muy Bajo'', ''Bajo'', ''Moderado'', ''Alto'', ''Muy Alto'']"
    by simp
  from predict_tsunami_risk_tier [OF assms] tiers bounds names show ?thesis
    by blast
qed

theorem five_tier_partition_witness:
  "predict_tsunami_risk (Some example_model) quake_tohoku = Some risk_muy_alto
   \<and> (risk_level risk_muy_alto, risk_color risk_muy_alto, risk_emoji risk_muy_alto) =
       risk_tier5 (probability risk_muy_alto)
   \<and> risk_tier5 (probability risk_muy_alto) = (''Muy Alto'', ''#ef4444'', red_circle)"
proof -
  have a: "(risk_level risk_muy_alto, risk_color risk_muy_alto, risk_emoji risk_muy_alto) =
      risk_tier5 (probability risk_muy_alto)"
    using five_tier_partition [OF predict_examples(3)] by (rule conjunct1)
  have b: "risk_tier5 (probability risk_muy_alto) = (''Muy Alto'', ''#ef4444'', red_circle)"
    by (simp add: risk_muy_alto_def risk_tier5_def)
  from predict_examples(3) a b show ?thesis by blast
qed

section \<open>The single-shot prediction\<close>

lemma engineer_features_ocean:
  assumes "engineer_features data = Inr out"
    and "data ''latitude'' = Some lat" and "data ''longitude'' = Some lon"
  shows "\<exists>p. calculate_ocean_proximity_app lat lon = Inr p
            \<and> out ''ocean_proximity'' = Some (int_val p)"
  using assms unfolding engineer_features_def
  by (auto simp: rbind_eq_Inr getitem_def split: option.splits)

lemma predict_tsunami_Some:
  assumes "predict_tsunami (Some m) data = Inr (Some r)"
  shows "\<exists>processed. engineer_features data = Inr processed
            \<and> risk_factors_of data processed = Inr (risk_factors r)
            \<and> risk_level r = fst (risk_tier3 (probability r))
            \<and> risk_color r = snd (risk_tier3 (probability r))"
  using assms unfolding predict_tsunami_def
  by (auto simp: rbind_eq_Inr)

lemma int_val_eq_1: "(int_val p = int_val 1) = (p = 1)"
  by (simp add: int_val_def)

lemma risk_factors_of_Fin:
  assumes "data ''magnitude'' = Some (PyFloat (Fin mg))"
    and "data ''depth'' = Some (PyFloat (Fin dp))"
    and "get_default data ''mmi'' (int_val 0) = PyFloat (Fin mi)"
    and "processed ''ocean_proximity'' = Some (int_val p)"
  shows "risk_factors_of data processed =
     Inr ((if 7.5 \<le> mg then [factor_magnitude] else [])
        @ (if dp < 70 then [factor_depth] else [])
        @ (if p = 1 then [factor_ocean] else [])
        @ (if 6 \<le> mi then [factor_mmi] else []))"
  using assms
  by (simp add: risk_factors_of_def getitem_def py_ge_def py_lt_def int_val_eq_1)

lemma tier3_cases:
  "(0.7 \<le> p) = (risk_tier3 p = (red_circle @ '' Alto'', ''#dc3545''))"
  "(0.3 \<le> p \<and> p < 0.7) = (risk_tier3 p = (yellow_circle @ '' Moderado'', ''#ffc107''))"
  "(p < 0.3) = (risk_tier3 p = (green_circle @ '' Bajo'', ''#28a745''))"
  by (auto simp: risk_tier3_def)

lemma factors_distinct: "distinct [factor_magnitude, factor_depth, factor_ocean, factor_mmi]"
  by (simp add: factor_magnitude_def factor_depth_def factor_ocean_def factor_mmi_def)

text \<open>
  C4. A result of \<open>predict_tsunami\<close> has level Alto and its colour exactly when the
  probability is at least 0.7, Moderado when it is at least 0.3 and below 0.7, and Bajo
  below 0.3. For an event with numeric magnitude, depth, coordinates and mmi (0 when
  absent), its list of risk factors holds, in this order, the description of each rule
  that triggers and no other: magnitude \<ge> 7.5, depth < 70, the point inside one of the
  three basins (the derived \<open>ocean_proximity\<close> is 1), mmi \<ge> 6.
\<close>

theorem three_tier_and_factors:
  assumes "predict_tsunami (Some model) data = Inr (Some r)"
    and "data ''magnitude'' = Some (PyFloat (Fin mg))"
    and "data ''depth'' = Some (PyFloat (Fin dp))"
    and "data ''latitude'' = Some (PyFloat (Fin la))"
    and "data ''longitude'' = Some (PyFloat (Fin lo))"
    and "get_default data ''mmi'' (int_val 0) = PyFloat (Fin mi)"
  shows "(0.7 \<le> probability r) =
           ((risk_level r, risk_color r) = (red_circle @ '' Alto'', ''#dc3545''))
       \<and> (0.3 \<le> probability r \<and> probability r < 0.7) =
           ((risk_level r, risk_color r) = (yellow_circle @ '' Moderado'', ''#ffc107''))
       \<and> (probability r < 0.3) =
           ((risk_level r, risk_color r) = (green_circle @ '' Bajo'', ''#28a745''))
       \<and> risk_factors r =
           (if 7.5 \<le> mg then [factor_magnitude] else [])
         @ (if dp < 70 then [factor_depth] else [])
         @ (if spec_pacific_ring la lo \<or> spec_indian_ocean la lo \<or> spec_caribbean la lo
            then [factor_ocean] else [])
         @ (if 6 \<le> mi then [factor_mmi] else [])
       \<and> distinct [factor_magnitude, factor_depth, factor_ocean, factor_mmi]"
proof -
  from predict_tsunami_Some [OF assms(1)] obtain processed where
    e: "engineer_features data = Inr processed"
    and f: "risk_factors_of data processed = Inr (risk_factors r)"
    and t: "(risk_level r, risk_color r) = risk_tier3 (probability r)"
    by (auto simp: prod_eq_iff)
  from engineer_features_ocean [OF e assms(4) assms(5)] obtain p where
    p: "p = (if spec_pacific_ring la lo \<or> spec_indian_ocean la lo \<or> spec_caribbean la lo
             then 1 else 0)"
    and o: "processed ''ocean_proximity'' = Some (int_val p)"
    by (auto simp: cop_app_Fin)
  have "risk_factors r =
           (if 7.5 \<le> mg then [factor_magnitude] else [])
         @ (if dp < 70 then [factor_depth] else [])
         @ (if p = 1 then [factor_ocean] else [])
         @ (if 6 \<le> mi then [factor_mmi] else [])"
    using f assms(2,3,6) o risk_factors_of_Fin [of data mg dp mi processed p] by simp
  then have g: "risk_factors r =
           (if 7.5 \<le> mg then [factor_magnitude] else [])
         @ (if dp < 70 then [factor_depth] else [])
         @ (if spec_pacific_ring la lo \<or> spec_indian_ocean la lo \<or> spec_caribbean la lo
            then [factor_ocean] else [])
         @ (if 6 \<le> mi then [factor_mmi] else [])"
    by (simp add: p)
  show ?thesis
    unfolding t using g factors_distinct tier3_cases [of "probability r"] by blast
qed


lemma japan_mmi: "get_default japan_2011 ''mmi'' (int_val 0) = PyFloat (Fin 6)"
  by (simp add: get_default_def japan_lookups)

lemma japan_factors:
  "risk_factors_of japan_2011
     (japan_2011(''ocean_proximity'' \<mapsto> int_val 1,
                 ''mag_depth_ratio'' \<mapsto> PyFloat (Fin (91 / 300)),
                 ''intensity_score'' \<mapsto> PyFloat (Fin 7.95),
                 ''shallow_strong'' \<mapsto> int_val 1)) =
   Inr [factor_magnitude, factor_depth, factor_ocean, factor_mmi]"
  using risk_factors_of_Fin [of japan_2011 "9.1" 29 6 _ 1]
  by (simp add: japan_lookups japan_mmi)

lemma japan_predict: "predict_tsunami (Some example_model) japan_2011 = Inr (Some japan_result)"
proof -
  let ?p = "japan_2011(''ocean_proximity'' \<mapsto> int_val 1,
                       ''mag_depth_ratio'' \<mapsto> PyFloat (Fin (91 / 300)),
                       ''intensity_score'' \<mapsto> PyFloat (Fin 7.95),
                       ''shallow_strong'' \<mapsto> int_val 1)"
  let ?X = "[PyFloat (Fin 9.1), PyFloat (Fin 29), int_val 1, int_val 1]"
  let ?S = "[Fin 9.1, Fin 29, Fin 1, Fin 1]"
  have e: "engineer_features japan_2011 = Inr ?p"
    by (rule japan_engineer)
  have c: "select_columns ?p (feature_names example_model) = Inr ?X"
    by (simp add: example_model_def getitem_def japan_lookups)
  have s: "scaler_transform example_model ?X = Inr ?S"
    by (simp add: example_model_def int_val_def)
  have p: "predict_proba example_model ?S = Inr 0.9"
    by (simp add: example_model_def)
  have k: "predict example_model ?S = Inr 1"
    by (simp add: example_model_def)
  have f: "risk_factors_of japan_2011 ?p =
      Inr [factor_magnitude, factor_depth, factor_ocean, factor_mmi]"
    by (rule japan_factors)
  have t: "risk_tier3 0.9 = (red_circle @ '' Alto'', ''#dc3545'')"
    by (simp add: risk_tier3_def)
  show ?thesis
    unfolding predict_tsunami_def
    by (simp only: option.case e c s p k f t rbind_Inr japan_result_def fst_conv snd_conv)
qed

theorem three_tier_and_factors_witness:
  "predict_tsunami (Some example_model) japan_2011 = Inr (Some japan_result)
   \<and> (0.7 :: real) \<le> probability japan_result
   \<and> (risk_level japan_result, risk_color japan_result) = (red_circle @ '' Alto'', ''#dc3545'')
   \<and> risk_factors japan_result = [factor_magnitude, factor_depth, factor_ocean, factor_mmi]"
proof -
  note t = three_tier_and_factors [OF japan_predict japan_lookups(3) japan_lookups(4)
      japan_lookups(1) japan_lookups(2) japan_mmi]
  have a: "(0.7 \<le> probability japan_result) =
      ((risk_level japan_result, risk_color japan_result) = (red_circle @ '' Alto'', ''#dc3545''))"
    using t by (rule conjunct1)
  have b: "(0.7 :: real) \<le> probability japan_result"
    by (simp add: japan_result_def)
  have c: "risk_factors japan_result = [factor_magnitude, factor_depth, factor_ocean, factor_mmi]"
    by (simp add: japan_result_def)
  from japan_predict a b c show ?thesis by blast
qed

section \<open>Fetching from the catalog\<close>

lemma summary_metrics_empty:
  "summary_metrics model alert_threshold [] =
     Inr \<lparr> total_terremotos = 0, magnitud_maxima = Text ''N/A'', alertas_de_tsunami = 0 \<rparr>"
  by (simp add: summary_metrics_def alerts_count_def)

text \<open>
  C6. For every window and magnitude floor, when the request to the catalog fails
  (connection, timeout, status or body), or a feature of the answer cannot be read,
  \<open>fetch_recent_earthquakes\<close> returns the empty list; it has no other outcome than a
  list. For the empty list the summary shows a total of 0, "N/A" as maximum magnitude and
  0 alerts.
\<close>

theorem fetch_failure_empty:
  assumes "usgs_query env minutes min_magnitude = Failed f
         \<or> (\<exists>features e. usgs_query env minutes min_magnitude = Document features
               \<and> fetch_loop env (case features of None \<Rightarrow> [] | Some fs \<Rightarrow> fs) [] = Inl e)"
  shows "fetch_recent_earthquakes env minutes min_magnitude = []
       \<and> summary_metrics model alert_threshold
           (fetch_recent_earthquakes env minutes min_magnitude) =
           Inr \<lparr> total_terremotos = 0, magnitud_maxima = Text ''N/A'', alertas_de_tsunami = 0 \<rparr>"
proof -
  from assms have "fetch_recent_earthquakes env minutes min_magnitude = []"
    by (auto simp: fetch_recent_earthquakes_def)
  then show ?thesis
    by (simp add: summary_metrics_empty)
qed

theorem fetch_failure_empty_witness:
  "usgs_query example_env 10 5 = Failed TimedOut
   \<and> fetch_recent_earthquakes example_env 10 5 = []
   \<and> summary_metrics (Some example_model) 0.3 (fetch_recent_earthquakes example_env 10 5) =
       Inr \<lparr> total_terremotos = 0, magnitud_maxima = Text ''N/A'', alertas_de_tsunami = 0 \<rparr>"
proof -
  have q: "usgs_query example_env 10 5 = Failed TimedOut"
    by (simp add: example_env_def)
  then have "usgs_query example_env 10 5 = Failed TimedOut
         \<or> (\<exists>features e. usgs_query example_env 10 5 = Document features
               \<and> fetch_loop example_env (case features of None \<Rightarrow> [] | Some fs \<Rightarrow> fs) [] = Inl e)"
    by (rule disjI1)
  from fetch_failure_empty [OF this, of "Some example_model" "0.3"] q show ?thesis
    by blast
qed

section \<open>The sorted list and the alerts\<close>

lemma assess_fold:
  "fold (\<lambda>eq acc. case predict_tsunami_risk model eq of None \<Rightarrow> acc | Some r \<Rightarrow> acc @ [(eq, r)])
     es acc = acc @ List.map_filter (keep_risk model) es"
  by (induction es arbitrary: acc) (auto simp: List.map_filter_simps keep_risk_def split: option.splits)

lemma assess_map_filter: "assess model es = List.map_filter (keep_risk model) es"
  by (simp add: assess_def assess_fold)

lemma assess_order:
  "map fst (assess model es) = filter (\<lambda>eq. predict_tsunami_risk model eq \<noteq> None) es"
  unfolding assess_map_filter
  by (induction es) (auto simp: List.map_filter_simps keep_risk_def split: option.splits)

lemma assess_risk:
  "x \<in> set (assess model es) \<Longrightarrow> predict_tsunami_risk model (fst x) = Some (snd x)"
  unfolding assess_map_filter
  by (auto simp: List.map_filter_def keep_risk_def)

lemma py_sort_reverse_sorted:
  "sorted_wrt (\<lambda>x y. key y \<le> key x) (py_sort_reverse key xs)"
proof -
  have "sorted (map key (sort_key key (rev xs)))"
    by (rule sorted_sort_key)
  then have "sorted_wrt (\<lambda>x y. key x \<le> key y) (sort_key key (rev xs))"
    by (simp add: sorted_map)
  then show ?thesis
    by (simp add: py_sort_reverse_def sorted_wrt_rev)
qed

lemma py_sort_reverse_stable:
  "filter (\<lambda>x. key x = k) (py_sort_reverse key xs) = filter (\<lambda>x. key x = k) xs"
proof -
  have "filter (\<lambda>x. key x = k) (py_sort_reverse key xs) =
        rev (filter (\<lambda>x. key x = k) (sort_key key (rev xs)))"
    by (simp add: py_sort_reverse_def rev_filter)
  also have "\<dots> = rev (filter (\<lambda>x. key x = k) (rev xs))"
    by (simp only: sort_key_stable)
  also have "\<dots> = filter (\<lambda>x. key x = k) xs"
    by (simp add: rev_filter)
  finally show ?thesis .
qed

lemma py_sort_reverse_filter_length:
  "length (filter P (py_sort_reverse key xs)) = length (filter P xs)"
proof -
  have "filter P (py_sort_reverse key xs) = rev (sort_key key (filter P (rev xs)))"
    by (simp only: py_sort_reverse_def rev_filter [symmetric] filter_sort)
  then have "length (filter P (py_sort_reverse key xs)) = length (filter P (rev xs))"
    by simp
  also have "\<dots> = length (filter P xs)"
    by (simp only: rev_filter [symmetric] length_rev)
  finally show ?thesis .
qed

lemma py_sort_reverse_set: "set (py_sort_reverse key xs) = set xs"
  by (simp add: py_sort_reverse_def)

text \<open>
  C7. The list of assessed earthquakes is in descending order of probability. Its
  entries of any one probability are those of the list before sorting, in the same order;
  and that list holds the earthquakes with a risk in the order of the fetched batch. The
  sorted list has the same entries as the unsorted one.
\<close>

theorem sorted_descending_stable:
  "sorted_wrt (\<lambda>x y. probability (snd y) \<le> probability (snd x))
     (earthquakes_with_risk model earthquakes)
   \<and> filter (\<lambda>x. probability (snd x) = p) (earthquakes_with_risk model earthquakes) =
       filter (\<lambda>x. probability (snd x) = p) (assess model earthquakes)
   \<and> set (earthquakes_with_risk model earthquakes) = set (assess model earthquakes)
   \<and> length (earthquakes_with_risk model earthquakes) = length (assess model earthquakes)
   \<and> map fst (assess model earthquakes) =
       filter (\<lambda>eq. predict_tsunami_risk model eq \<noteq> None) earthquakes"
  unfolding earthquakes_with_risk_def
  using py_sort_reverse_sorted [of "\<lambda>x. probability (snd x)" "assess model earthquakes"]
    py_sort_reverse_stable [of "\<lambda>x. probability (snd x)" p "assess model earthquakes"]
    py_sort_reverse_filter_length [of "\<lambda>x. True" "\<lambda>x. probability (snd x)" "assess model earthquakes"]
  by (simp add: py_sort_reverse_set assess_order)

lemma count_fold:
  "fold (\<lambda>eq n. case predict_tsunami_risk model eq of
                  None \<Rightarrow> n
                | Some risk \<Rightarrow> if probability risk \<ge> t then n + 1 else n) es k =
   k + length (filter (\<lambda>x. probability (snd x) \<ge> t) (List.map_filter (keep_risk model) es))"
  by (induction es arbitrary: k)
     (auto simp: List.map_filter_simps keep_risk_def split: option.splits)

lemma predict_without_model: "predict_tsunami_risk None eq = None"
  by (simp add: predict_tsunami_risk_def)

lemma assess_without_model: "assess None es = []"
  unfolding assess_map_filter
  by (induction es) (simp_all add: List.map_filter_simps keep_risk_def predict_without_model)

text \<open>
  C10. \<open>predict_tsunami_risk\<close> is a function of the model and the earthquake, so the count
  of alerts in the summary, from the first scoring pass, is the length of the list of
  active alerts, from the second pass, for every batch and threshold.
\<close>

theorem alert_counts_agree:
  "alerts_count model alert_threshold earthquakes =
   length (high_risk model alert_threshold earthquakes)"
proof -
  have h: "length (high_risk model alert_threshold earthquakes) =
      length (filter (\<lambda>x. probability (snd x) \<ge> alert_threshold) (assess model earthquakes))"
    by (simp add: high_risk_def earthquakes_with_risk_def py_sort_reverse_filter_length)
  show ?thesis
  proof (cases "earthquakes \<noteq> [] \<and> model \<noteq> None")
    case True
    then show ?thesis
      by (simp add: alerts_count_def count_fold h assess_map_filter)
  next
    case False
    then have "earthquakes = [] \<or> model = None"
      by simp
    then have "assess model earthquakes = []"
    proof
      assume "earthquakes = []"
      then show ?thesis by (simp add: assess_def)
    next
      assume "model = None"
      then show ?thesis by (simp only: assess_without_model)
    qed
    moreover from False have "alerts_count model alert_threshold earthquakes = 0"
      unfolding alerts_count_def by (simp only: if_False)
    ultimately show ?thesis
      by (simp add: h)
  qed
qed


lemma assess_example:
  "assess (Some example_model) [quake_honshu, quake_null_mag, quake_tohoku, quake_kyushu] =
     [(quake_honshu, risk_moderado), (quake_null_mag, risk_muy_bajo),
      (quake_tohoku, risk_muy_alto), (quake_kyushu, risk_moderado)]"
  by (simp add: assess_def predict_examples)

lemma example_probabilities:
  "probability risk_moderado = 0.5" "probability risk_muy_bajo = 0.1"
  "probability risk_muy_alto = 0.9"
  by (simp_all add: risk_moderado_def risk_muy_bajo_def risk_muy_alto_def)

lemma sorted_example:
  "earthquakes_with_risk (Some example_model)
     [quake_honshu, quake_null_mag, quake_tohoku, quake_kyushu] =
     [(quake_tohoku, risk_muy_alto), (quake_honshu, risk_moderado),
      (quake_kyushu, risk_moderado), (quake_null_mag, risk_muy_bajo)]"
  by (simp add: earthquakes_with_risk_def assess_example py_sort_reverse_def
      example_probabilities)

theorem sorted_descending_stable_witness:
  "earthquakes_with_risk (Some example_model)
     [quake_honshu, quake_null_mag, quake_tohoku, quake_kyushu] =
     [(quake_tohoku, risk_muy_alto), (quake_honshu, risk_moderado),
      (quake_kyushu, risk_moderado), (quake_null_mag, risk_muy_bajo)]
   \<and> filter (\<lambda>x. probability (snd x) = 0.5)
       (earthquakes_with_risk (Some example_model)
          [quake_honshu, quake_null_mag, quake_tohoku, quake_kyushu]) =
       [(quake_honshu, risk_moderado), (quake_kyushu, risk_moderado)]"
proof -
  have "filter (\<lambda>x. probability (snd x) = 0.5)
       (earthquakes_with_risk (Some example_model)
          [quake_honshu, quake_null_mag, quake_tohoku, quake_kyushu]) =
     filter (\<lambda>x. probability (snd x) = 0.5)
       (assess (Some example_model) [quake_honshu, quake_null_mag, quake_tohoku, quake_kyushu])"
    using sorted_descending_stable
      [of "Some example_model" "[quake_honshu, quake_null_mag, quake_tohoku, quake_kyushu]" "0.5"]
    by blast
  also have "\<dots> = [(quake_honshu, risk_moderado), (quake_kyushu, risk_moderado)]"
    by (simp add: assess_example example_probabilities)
  finally show ?thesis
    using sorted_example by blast
qed

theorem alert_counts_agree_witness:
  "alerts_count (Some example_model) 0.3
     [quake_honshu, quake_null_mag, quake_tohoku, quake_kyushu] = 3
   \<and> high_risk (Some example_model) 0.3
     [quake_honshu, quake_null_mag, quake_tohoku, quake_kyushu] =
     [(quake_tohoku, risk_muy_alto), (quake_honshu, risk_moderado),
      (quake_kyushu, risk_moderado)]"
proof -
  have h: "high_risk (Some example_model) 0.3
     [quake_honshu, quake_null_mag, quake_tohoku, quake_kyushu] =
     [(quake_tohoku, risk_muy_alto), (quake_honshu, risk_moderado),
      (quake_kyushu, risk_moderado)]"
    by (simp add: high_risk_def sorted_example example_probabilities)
  have "alerts_count (Some example_model) 0.3
     [quake_honshu, quake_null_mag, quake_tohoku, quake_kyushu] = 3"
    using alert_counts_agree
      [of "Some example_model" "0.3" "[quake_honshu, quake_null_mag, quake_tohoku, quake_kyushu]"]
    by (simp add: h)
  with h show ?thesis by blast
qed

section \<open>Missing entries\<close>

lemma map_of_filled:
  "map_of (map (\<lambda>(key, dflt). (key, f key dflt)) xs) k = map_option (f k) (map_of xs k)"
  by (induction xs) auto

lemma input_data_of_lookup:
  "input_data_of e k = map_option (fill_value e k) (map_of defaults k)"
  by (simp add: input_data_of_def map_of_filled)

lemma defaults_present: "map_of defaults key = Some dflt \<Longrightarrow> \<not> is_missing dflt"
  by (auto simp: defaults_def is_missing_def int_val_def split: if_splits)

lemma fill_value_missing:
  assumes "e key = None \<or> e key = Some PyNone \<or> e key = Some (PyFloat NaN)"
  shows "fill_value e key dflt = dflt"
  using assms by (auto simp: fill_value_def get_default_def is_missing_def)

lemma fill_value_update_same:
  "\<not> is_missing dflt \<Longrightarrow> fill_value (e(key \<mapsto> dflt)) key dflt = dflt"
  by (simp add: fill_value_def get_default_def)

lemma fill_value_update_other:
  "k \<noteq> key \<Longrightarrow> fill_value (e(key \<mapsto> v)) k d = fill_value e k d"
  by (simp add: fill_value_def get_default_def)

lemma input_data_of_substituted:
  assumes "map_of defaults key = Some dflt"
    and "e key = None \<or> e key = Some PyNone \<or> e key = Some (PyFloat NaN)"
  shows "input_data_of (e(key \<mapsto> dflt)) = input_data_of e"
proof
  fix k
  show "input_data_of (e(key \<mapsto> dflt)) k = input_data_of e k"
  proof (cases "k = key")
    case True
    then show ?thesis
      using assms
      by (simp add: input_data_of_lookup fill_value_missing fill_value_update_same
          defaults_present)
  next
    case False
    then show ?thesis
      by (simp add: input_data_of_lookup fill_value_update_other cong: map_option_cong)
  qed
qed

lemma derive_features_depends:
  "time a = time b \<Longrightarrow> input_data_of (entries a) = input_data_of (entries b)
     \<Longrightarrow> derive_features a = derive_features b"
  by (simp add: derive_features_def)

text \<open>
  C5 (amended). When an entry that has a default (magnitude 5.0, depth 10.0, latitude
  0.0 and longitude 0.0 among them) is absent, \<open>None\<close> or not-a-number,
  \<open>predict_tsunami_risk\<close> puts the default in its place before it derives the features,
  and returns what it returns for the earthquake that carries the default: the earthquake
  is not rejected.
\<close>

theorem missing_mandatory_defaulted:
  assumes "map_of defaults key = Some dflt"
    and "entries eq key = None \<or> entries eq key = Some PyNone
         \<or> entries eq key = Some (PyFloat NaN)"
  shows "input_data_of (entries eq) key = Some dflt
       \<and> derive_features eq = derive_features (eq\<lparr>entries := (entries eq)(key \<mapsto> dflt)\<rparr>)
       \<and> predict_tsunami_risk model eq =
           predict_tsunami_risk model (eq\<lparr>entries := (entries eq)(key \<mapsto> dflt)\<rparr>)
       \<and> map_of defaults ''magnitude'' = Some (PyFloat (Fin 5.0))
       \<and> map_of defaults ''depth'' = Some (PyFloat (Fin 10.0))
       \<and> map_of defaults ''latitude'' = Some (PyFloat (Fin 0.0))
       \<and> map_of defaults ''longitude'' = Some (PyFloat (Fin 0.0))"
proof -
  have a: "input_data_of (entries eq) key = Some dflt"
    using assms by (simp add: input_data_of_lookup fill_value_missing)
  have b: "derive_features eq = derive_features (eq\<lparr>entries := (entries eq)(key \<mapsto> dflt)\<rparr>)"
    using input_data_of_substituted [of key dflt "entries eq"] assms
    by (intro derive_features_depends) simp_all
  have c: "predict_tsunami_risk model eq =
           predict_tsunami_risk model (eq\<lparr>entries := (entries eq)(key \<mapsto> dflt)\<rparr>)"
  proof -
    have "score_features m eq = score_features m (eq\<lparr>entries := (entries eq)(key \<mapsto> dflt)\<rparr>)"
      for m
      unfolding score_features_def by (simp only: b [symmetric])
    then show ?thesis
      by (simp add: predict_tsunami_risk_def split: option.splits)
  qed
  have d: "map_of defaults ''magnitude'' = Some (PyFloat (Fin 5.0))"
    "map_of defaults ''depth'' = Some (PyFloat (Fin 10.0))"
    "map_of defaults ''latitude'' = Some (PyFloat (Fin 0.0))"
    "map_of defaults ''longitude'' = Some (PyFloat (Fin 0.0))"
    by (simp_all add: defaults_def)
  from a b c d show ?thesis by blast
qed

lemma null_mag_entry: "entries quake_null_mag ''magnitude'' = Some PyNone"
  by (simp add: quake_null_mag_def)

text \<open>
  An earthquake whose magnitude the catalog reports as \<open>null\<close> is fetched, gets magnitude
  5.0, and is given a risk.
\<close>

theorem missing_magnitude_not_rejected:
  "fetch_recent_earthquakes example_env 60 5 =
     [quake_honshu, quake_null_mag, quake_tohoku, quake_kyushu]
   \<and> entries quake_null_mag ''magnitude'' = Some PyNone
   \<and> input_data_of (entries quake_null_mag) ''magnitude'' = Some (PyFloat (Fin 5))
   \<and> predict_tsunami_risk (Some example_model) quake_null_mag = Some risk_muy_bajo"
  by (simp add: fetch_example null_mag_entry predict_examples input_data_of_mandatory
      quake_fills)

theorem missing_mandatory_defaulted_witness:
  "map_of defaults ''magnitude'' = Some (PyFloat (Fin 5))
   \<and> entries quake_null_mag ''magnitude'' = Some PyNone
   \<and> input_data_of (entries quake_null_mag) ''magnitude'' = Some (PyFloat (Fin 5))
   \<and> predict_tsunami_risk (Some example_model)
       (quake_null_mag\<lparr>entries := (entries quake_null_mag)(''magnitude'' \<mapsto> PyFloat (Fin 5))\<rparr>) =
       Some risk_muy_bajo"
proof -
  have m: "map_of defaults ''magnitude'' = Some (PyFloat (Fin 5))"
    by (simp add: defaults_def)
  have n: "entries quake_null_mag ''magnitude'' = None
      \<or> entries quake_null_mag ''magnitude'' = Some PyNone
      \<or> entries quake_null_mag ''magnitude'' = Some (PyFloat NaN)"
    by (simp add: null_mag_entry)
  note t = missing_mandatory_defaulted [OF m n, of "Some example_model"]
  have a: "input_data_of (entries quake_null_mag) ''magnitude'' = Some (PyFloat (Fin 5))"
    using t by (rule conjunct1)
  have "predict_tsunami_risk (Some example_model) quake_null_mag =
       predict_tsunami_risk (Some example_model)
       (quake_null_mag\<lparr>entries := (entries quake_null_mag)(''magnitude'' \<mapsto> PyFloat (Fin 5))\<rparr>)"
    using t by blast
  then have b: "predict_tsunami_risk (Some example_model)
       (quake_null_mag\<lparr>entries := (entries quake_null_mag)(''magnitude'' \<mapsto> PyFloat (Fin 5))\<rparr>) =
       Some risk_muy_bajo"
    by (simp add: predict_examples)
  from m null_mag_entry a b show ?thesis by blast
qed

end
